theory Spec2Isabelle
  imports Main "HOL-Library.AList"
begin

section \<open>Validator nodes\<close>

text \<open>
  The schema derivation (the second document of \<^verbatim>\<open>src/src/adapters/standalone.ts\<close>,
  lines 26 to 256: \<^verbatim>\<open>getParameterObjects\<close>, \<^verbatim>\<open>getRequestBodyObject\<close>,
  \<^verbatim>\<open>errorResponseObject\<close> and \<^verbatim>\<open>getResponsesObject\<close>) works on the nodes of the
  validator library. A node is its definition (\<^verbatim>\<open>_def\<close>: the kind and what it wraps)
  together with the metadata that \<^verbatim>\<open>.openapi(...)\<close> attached, if any. The kinds are
  the ones the source and the specification name: the primitives, the three kinds without
  a value, objects, arrays, the optional wrapper and the pass-through wrappers (default,
  nullable, effects). A default value and an effect's function are not part of the model.

  An object literal is an association list in the order \<^verbatim>\<open>Object.keys\<close> enumerates it.
\<close>

datatype json = JsonString string | JsonArray "json list"

type_synonym openapi_metadata = "(string \<times> json) list"

datatype zod = Zod (zod_def: zod_def) (zodOpenApi: "openapi_metadata option")
and zod_def =
    ZodStringDef
  | ZodNumberDef
  | ZodBooleanDef
  | ZodBigIntDef
  | ZodDateDef
  | ZodVoidDef
  | ZodUndefinedDef
  | ZodNeverDef
  | ZodObjectDef "(string \<times> zod) list"
  | ZodArrayDef zod
  | ZodOptionalDef zod
  | ZodDefaultDef zod
  | ZodNullableDef zod
  | ZodEffectsDef zod

datatype ZodFirstPartyTypeKind =
    ZodString
  | ZodNumber
  | ZodBoolean
  | ZodBigInt
  | ZodDate
  | ZodVoid
  | ZodUndefined
  | ZodNever
  | ZodObject
  | ZodArray
  | ZodOptional
  | ZodDefault
  | ZodNullable
  | ZodEffects

text \<open>\<^verbatim>\<open>schema: unknown\<close>: the argument is a validator node or some other value.\<close>

datatype unknown = ZodType zod | NotZodType

fun typeName :: "zod \<Rightarrow> ZodFirstPartyTypeKind" where
  "typeName (Zod ZodStringDef m) = ZodString"
| "typeName (Zod ZodNumberDef m) = ZodNumber"
| "typeName (Zod ZodBooleanDef m) = ZodBoolean"
| "typeName (Zod ZodBigIntDef m) = ZodBigInt"
| "typeName (Zod ZodDateDef m) = ZodDate"
| "typeName (Zod ZodVoidDef m) = ZodVoid"
| "typeName (Zod ZodUndefinedDef m) = ZodUndefined"
| "typeName (Zod ZodNeverDef m) = ZodNever"
| "typeName (Zod (ZodObjectDef s) m) = ZodObject"
| "typeName (Zod (ZodArrayDef z) m) = ZodArray"
| "typeName (Zod (ZodOptionalDef z) m) = ZodOptional"
| "typeName (Zod (ZodDefaultDef z) m) = ZodDefault"
| "typeName (Zod (ZodNullableDef z) m) = ZodNullable"
| "typeName (Zod (ZodEffectsDef z) m) = ZodEffects"

subsection \<open>The validator library's constructors and methods\<close>

text \<open>
  \<^verbatim>\<open>z.string()\<close>, \<^verbatim>\<open>z.number()\<close>, \<^verbatim>\<open>z.void()\<close>, \<^verbatim>\<open>z.never()\<close>,
  \<^verbatim>\<open>z.array(s)\<close>, \<^verbatim>\<open>z.object(shape)\<close>, \<^verbatim>\<open>s.optional()\<close> and \<^verbatim>\<open>s.default(v)\<close>
  build a node without metadata; \<^verbatim>\<open>s.openapi(m)\<close> gives the node \<^verbatim>\<open>s\<close> with the
  metadata \<^verbatim>\<open>m\<close> (the source calls it once on a node).
\<close>

definition z_string :: zod where
  "z_string = Zod ZodStringDef None"

definition z_number :: zod where
  "z_number = Zod ZodNumberDef None"

definition z_void :: zod where
  "z_void = Zod ZodVoidDef None"

definition z_never :: zod where
  "z_never = Zod ZodNeverDef None"

definition z_array :: "zod \<Rightarrow> zod" where
  "z_array s = Zod (ZodArrayDef s) None"

definition z_object :: "(string \<times> zod) list \<Rightarrow> zod" where
  "z_object s = Zod (ZodObjectDef s) None"

definition optional :: "zod \<Rightarrow> zod" where
  "optional s = Zod (ZodOptionalDef s) None"

definition withDefault :: "zod \<Rightarrow> zod" where
  "withDefault s = Zod (ZodDefaultDef s) None"

definition openapi :: "openapi_metadata \<Rightarrow> zod \<Rightarrow> zod" where
  "openapi m s = Zod (zod_def s) (Some m)"

text \<open>
  \<^verbatim>\<open>s.isOptional()\<close> is the library's test whether parsing an absent value
  (\<^verbatim>\<open>undefined\<close>) succeeds. On the kinds of the model: the optional wrapper accepts it,
  and so do the void and the undefined node and a default (the default value stands in; it
  is taken to be one the wrapped node accepts, as its type demands); a nullable node hands
  the absent value to the node it wraps, and so does an effect that is a refinement or a
  transform which itself raises no issue (an effect's function is not part of the model,
  and preprocess effects are not covered). It is a different test from
  \<^verbatim>\<open>instanceofZodTypeOptional\<close>, which looks at the kind of the node alone. The
  theorems on \<^verbatim>\<open>getParameterObjects\<close> and \<^verbatim>\<open>getRequestBodyObject\<close> hold for any
  such test: they never unfold this definition.
\<close>

fun isOptional :: "zod \<Rightarrow> bool" where
  "isOptional (Zod (ZodOptionalDef z) m) = True"
| "isOptional (Zod (ZodDefaultDef z) m) = True"
| "isOptional (Zod ZodVoidDef m) = True"
| "isOptional (Zod ZodUndefinedDef m) = True"
| "isOptional (Zod (ZodNullableDef z) m) = isOptional z"
| "isOptional (Zod (ZodEffectsDef z) m) = isOptional z"
| "isOptional (Zod d m) = False"

text \<open>
  \<^verbatim>\<open>s.unwrap()\<close> is a method of the optional (and the nullable) wrapper and gives the
  node it wraps; the source calls it behind the test \<^verbatim>\<open>instanceofZodTypeOptional\<close> only.
\<close>

fun unwrap :: "zod \<Rightarrow> zod" where
  "unwrap (Zod (ZodOptionalDef z) m) = z"
| "unwrap (Zod (ZodNullableDef z) m) = z"
| "unwrap s = s"

text \<open>\<^verbatim>\<open>s.shape\<close>, the fields of an object node (no other node has the property).\<close>

fun shapeOf :: "zod \<Rightarrow> (string \<times> zod) list" where
  "shapeOf (Zod (ZodObjectDef s) m) = s"
| "shapeOf s = []"

text \<open>
  The members that every object inherits from \<^verbatim>\<open>Object.prototype\<close>. Reading one of
  these keys on an object literal \<^verbatim>\<open>{}\<close> gives the inherited member (a function, or the
  prototype itself for \<^verbatim>\<open>__proto__\<close>), which is truthy; reading any other key gives
  \<^verbatim>\<open>undefined\<close>. \<open>emptyObject\<close> is the object literal \<^verbatim>\<open>{}\<close> as a test
  \<^verbatim>\<open>key \<mapsto> !!obj[key]\<close>, and an assignment \<^verbatim>\<open>obj[key] = true\<close> makes the key truthy
  (on \<^verbatim>\<open>__proto__\<close> the assignment is ignored and the key stays truthy).
\<close>

definition objectPrototypeKeys :: "string list" where
  "objectPrototypeKeys =
     [''constructor'', ''__defineGetter__'', ''__defineSetter__'', ''hasOwnProperty'',
      ''__lookupGetter__'', ''__lookupSetter__'', ''isPrototypeOf'', ''propertyIsEnumerable'',
      ''toString'', ''valueOf'', ''__proto__'', ''toLocaleString'']"

definition emptyObject :: "string \<Rightarrow> bool" where
  "emptyObject key = (key \<in> set objectPrototypeKeys)"

text \<open>
  \<^verbatim>\<open>s.omit(mask)\<close> keeps the fields with \<^verbatim>\<open>!mask[key]\<close>, in their order. The method
  is the one that \<^verbatim>\<open>extendZodWithOpenApi(z)\<close> (line 50) has patched: what it leaves of
  the node's metadata depends on the version of that library (all of it is dropped, or the
  reference), so this is the parameter \<open>omitOpenApi\<close>.
\<close>

fun omit ::
  "(openapi_metadata option \<Rightarrow> openapi_metadata option) \<Rightarrow> (string \<Rightarrow> bool) \<Rightarrow> zod \<Rightarrow> zod" where
  "omit omitOpenApi mask' (Zod (ZodObjectDef s) m) =
     Zod (ZodObjectDef (filter (\<lambda>(k, v). \<not> mask' k) s)) (omitOpenApi m)"
| "omit omitOpenApi mask' s = s"

subsection \<open>The classifier of \<^verbatim>\<open>../utils/zod\<close>\<close>

text \<open>
  Modelled from the spec: \<^verbatim>\<open>instanceofZodType\<close> of \<^verbatim>\<open>../utils/zod\<close> (section 4.1,
  \<^verbatim>\<open>isValidatorNode(x)\<close>: true iff \<^verbatim>\<open>x\<close> is a recognized validator-tree node). As a
  type guard it gives the node.
\<close>

fun instanceofZodType :: "unknown \<Rightarrow> zod option" where
  "instanceofZodType (ZodType s) = Some s"
| "instanceofZodType NotZodType = None"

text \<open>
  Modelled from the spec: \<^verbatim>\<open>instanceofZodTypeKind\<close> of \<^verbatim>\<open>../utils/zod\<close> (section 4.1,
  \<^verbatim>\<open>kindIs(node, kind)\<close>: the structural kind test).
\<close>

definition instanceofZodTypeKind :: "zod \<Rightarrow> ZodFirstPartyTypeKind \<Rightarrow> bool" where
  "instanceofZodTypeKind s kind = (typeName s = kind)"

text \<open>
  Modelled from the spec: \<^verbatim>\<open>instanceofZodTypeOptional\<close> of \<^verbatim>\<open>../utils/zod\<close>
  (section 4.1, \<^verbatim>\<open>isOptionalWrapper(node)\<close>, with the single-layer unwrap beside it).
\<close>

definition instanceofZodTypeOptional :: "zod \<Rightarrow> bool" where
  "instanceofZodTypeOptional s = instanceofZodTypeKind s ZodOptional"

text \<open>
  Modelled from the spec: \<^verbatim>\<open>unwrapZodType\<close> of \<^verbatim>\<open>../utils/zod\<close> (section 4.1,
  \<^verbatim>\<open>unwrap(node, throughOptional)\<close>: repeatedly strips pass-through wrapper layers,
  default, transform or effect and nullable, and, if requested, the optional wrapper,
  until no further unwrap applies).
\<close>

fun unwrapZodType :: "zod \<Rightarrow> bool \<Rightarrow> zod" where
  "unwrapZodType (Zod (ZodOptionalDef z) m) throughOptional =
     (if throughOptional then unwrapZodType z throughOptional else Zod (ZodOptionalDef z) m)"
| "unwrapZodType (Zod (ZodDefaultDef z) m) throughOptional = unwrapZodType z throughOptional"
| "unwrapZodType (Zod (ZodNullableDef z) m) throughOptional = unwrapZodType z throughOptional"
| "unwrapZodType (Zod (ZodEffectsDef z) m) throughOptional = unwrapZodType z throughOptional"
| "unwrapZodType s throughOptional = s"

text \<open>
  Modelled from the spec: \<^verbatim>\<open>instanceofZodTypeObject\<close> of \<^verbatim>\<open>../utils/zod\<close> (section 4.1,
  \<^verbatim>\<open>isObjectLike(node)\<close>: an object-shape node). The derivers apply it to the node
  they have unwrapped and read \<^verbatim>\<open>.shape\<close> from that same node, so it is the kind
  test of the node.
\<close>

definition instanceofZodTypeObject :: "zod \<Rightarrow> bool" where
  "instanceofZodTypeObject s = instanceofZodTypeKind s ZodObject"

text \<open>
  Modelled from the spec: \<^verbatim>\<open>instanceofZodTypeLikeVoid\<close> of \<^verbatim>\<open>../utils/zod\<close>
  (section 3: void-like, the kind that accepts only the absence of a value, listed apart
  from the never-like and undefined-like kinds).
\<close>

definition instanceofZodTypeLikeVoid :: "zod \<Rightarrow> bool" where
  "instanceofZodTypeLikeVoid s = instanceofZodTypeKind s ZodVoid"

text \<open>
  Modelled from the spec: \<^verbatim>\<open>instanceofZodTypeLikeString\<close> of \<^verbatim>\<open>../utils/zod\<close>
  (section 4.1, \<^verbatim>\<open>isStringLike(node)\<close>: true for nodes that natively parse from a
  string). Section 4.2, step 6, tests the field's unwrapped node, and an optional string
  field is accepted there (section 8), so the unwrap goes through the optional wrapper.
\<close>

definition instanceofZodTypeLikeString :: "zod \<Rightarrow> bool" where
  "instanceofZodTypeLikeString s = instanceofZodTypeKind (unwrapZodType s True) ZodString"

text \<open>
  Modelled from the spec: \<^verbatim>\<open>instanceofZodTypeCoercible\<close> of \<^verbatim>\<open>../utils/zod\<close>
  (section 4.1, \<^verbatim>\<open>isCoercible(node)\<close>: true for nodes whose native type is number,
  boolean, big-integer or date and the library build supports coercion). The capability
  flag \<^verbatim>\<open>zodSupportsCoerce\<close> is fixed when the module is loaded; the model takes it
  as a parameter.
\<close>

definition instanceofZodTypeCoercible :: "bool \<Rightarrow> zod \<Rightarrow> bool" where
  "instanceofZodTypeCoercible zodSupportsCoerce s =
     (zodSupportsCoerce \<and>
      typeName (unwrapZodType s True) \<in> {ZodNumber, ZodBoolean, ZodBigInt, ZodDate})"

section \<open>Errors\<close>

text \<open>
  Every \<^verbatim>\<open>throw new TRPCError({message, code})\<close> is a value. \<^verbatim>\<open>TypeError\<close> is what
  reading a method of \<^verbatim>\<open>undefined\<close> raises (\<^verbatim>\<open>shape[shapeKey]!\<close> of a key that the
  shape does not have).
\<close>

datatype error = TRPCError (message: string) (code: string) | TypeError

definition quoted :: "string \<Rightarrow> string" where
  "quoted s = CHR 0x22 # s @ [CHR 0x22]"

definition INTERNAL_SERVER_ERROR :: string where
  "INTERNAL_SERVER_ERROR = ''INTERNAL_SERVER_ERROR''"

text \<open>The five failure kinds of section 7, with the messages of the source.\<close>

definition NotAValidator :: "string \<Rightarrow> error" where
  "NotAValidator parser = TRPCError (parser @ '' parser expects a Zod validator'') INTERNAL_SERVER_ERROR"

definition InputNotObject :: error where
  "InputNotObject = TRPCError ''Input parser must be a ZodObject'' INTERNAL_SERVER_ERROR"

definition UnknownPathParameter :: "string \<Rightarrow> error" where
  "UnknownPathParameter pathParameter =
     TRPCError (''Input parser expects key from path: '' @ quoted pathParameter) INTERNAL_SERVER_ERROR"

definition UnsupportedFieldType :: "bool \<Rightarrow> string \<Rightarrow> error" where
  "UnsupportedFieldType zodSupportsCoerce shapeKey =
     (if zodSupportsCoerce
      then TRPCError (''Input parser key: '' @ quoted shapeKey @
             '' must be ZodString, ZodNumber, ZodBoolean, ZodBigInt or ZodDate'') INTERNAL_SERVER_ERROR
      else TRPCError (''Input parser key: '' @ quoted shapeKey @ '' must be ZodString'')
             INTERNAL_SERVER_ERROR)"

definition OptionalPathParameter :: "string \<Rightarrow> error" where
  "OptionalPathParameter shapeKey =
     TRPCError (''Path parameter: '' @ quoted shapeKey @ '' must not be optional'') INTERNAL_SERVER_ERROR"

text \<open>\<^verbatim>\<open>Array.prototype.map\<close> with a callback that may throw: the first throw ends it.\<close>

fun mapE :: "('a \<Rightarrow> error + 'b) \<Rightarrow> 'a list \<Rightarrow> error + 'b list" where
  "mapE f [] = Inr []"
| "mapE f (x # xs) =
     (case f x of
        Inl e \<Rightarrow> Inl e
      | Inr y \<Rightarrow> (case mapE f xs of Inl e \<Rightarrow> Inl e | Inr ys \<Rightarrow> Inr (y # ys)))"

section \<open>getParameterObjects\<close>

datatype inType = InAll | InPath | InQuery

datatype paramType = ParamPath | ParamQuery

record parameter =
  name :: string
  paramType :: paramType
  required :: bool
  paramSchema :: zod

record ZodOpenApiParameters =
  header :: "zod option"
  path :: zod
  query :: zod

text \<open>The callback of \<^verbatim>\<open>.filter\<close> (lines 92 to 100).\<close>

definition inScope :: "inType \<Rightarrow> string list \<Rightarrow> string \<Rightarrow> bool" where
  "inScope inType pathParameters shapeKey =
     (let isPathParameter = shapeKey \<in> set pathParameters
      in if inType = InPath then isPathParameter
         else if inType = InQuery then \<not> isPathParameter
         else True)"

text \<open>
  The callback of \<^verbatim>\<open>.map\<close> (lines 101 to 138). The nested test of lines 106 to
  120 has two throws: the one of line 109 when coercion is supported and the node is not
  coercible, the one of line 115 when coercion is not supported.
\<close>

definition toParameter ::
  "bool \<Rightarrow> bool \<Rightarrow> (string \<times> zod) list \<Rightarrow> string list \<Rightarrow> string \<Rightarrow> error + parameter" where
  "toParameter zodSupportsCoerce isRequired shape pathParameters shapeKey =
     (case map_of shape shapeKey of
        None \<Rightarrow> Inl TypeError
      | Some shapeSchema \<Rightarrow>
          let isShapeRequired = \<not> isOptional shapeSchema;
              isPathParameter = shapeKey \<in> set pathParameters
          in if \<not> instanceofZodTypeLikeString shapeSchema \<and> zodSupportsCoerce \<and>
                \<not> instanceofZodTypeCoercible zodSupportsCoerce shapeSchema
             then Inl (UnsupportedFieldType True shapeKey)
             else if \<not> instanceofZodTypeLikeString shapeSchema \<and> \<not> zodSupportsCoerce
             then Inl (UnsupportedFieldType False shapeKey)
             else if instanceofZodTypeOptional shapeSchema \<and> isPathParameter
             then Inl (OptionalPathParameter shapeKey)
             else Inr \<lparr> name = shapeKey,
                        paramType = (if isPathParameter then ParamPath else ParamQuery),
                        required = (isPathParameter \<or> (isRequired \<and> isShapeRequired)),
                        paramSchema = (if instanceofZodTypeOptional shapeSchema
                                       then unwrap shapeSchema else shapeSchema) \<rparr>)"

text \<open>
  The callback of \<^verbatim>\<open>.reduce\<close> (lines 140 to 143): \<^verbatim>\<open>{ ...path, [name]: v }\<close>
  replaces the value of a key the object has and adds a new key at the end.
\<close>

definition addParameter ::
  "(string \<times> zod) list \<times> (string \<times> zod) list \<Rightarrow> parameter \<Rightarrow>
   (string \<times> zod) list \<times> (string \<times> zod) list" where
  "addParameter acc p =
     (\<lambda>(path', query').
        if paramType p = ParamPath
        then (AList.update (name p)
                (if required p then paramSchema p else optional (paramSchema p)) path', query')
        else (path', AList.update (name p)
                (if required p then paramSchema p else optional (paramSchema p)) query'))
     acc"

text \<open>Lines 91 to 138: the parameters of the fields in scope, in the order of the shape.\<close>

definition shapeParameters ::
  "bool \<Rightarrow> bool \<Rightarrow> (string \<times> zod) list \<Rightarrow> string list \<Rightarrow> inType \<Rightarrow> error + parameter list" where
  "shapeParameters zodSupportsCoerce isRequired shape pathParameters inType =
     mapE (toParameter zodSupportsCoerce isRequired shape pathParameters)
       (filter (inScope inType pathParameters) (map fst shape))"

definition getParameterObjects ::
  "bool \<Rightarrow> unknown \<Rightarrow> string list \<Rightarrow> zod option \<Rightarrow> inType \<Rightarrow>
   error + ZodOpenApiParameters option" where
  "getParameterObjects zodSupportsCoerce schema pathParameters headersSchema inType =
     (case instanceofZodType schema of
        None \<Rightarrow> Inl (NotAValidator ''Input'')
      | Some s \<Rightarrow>
          let isRequired = \<not> isOptional s;
              unwrappedSchema = unwrapZodType s True
          in if pathParameters = [] \<and> instanceofZodTypeLikeVoid unwrappedSchema then Inr None
             else if \<not> instanceofZodTypeObject unwrappedSchema then Inl InputNotObject
             else
               let shape = shapeOf unwrappedSchema;
                   shapeKeys = map fst shape
               in case find (\<lambda>pathParameter. pathParameter \<notin> set shapeKeys) pathParameters of
                    Some pathParameter \<Rightarrow> Inl (UnknownPathParameter pathParameter)
                  | None \<Rightarrow>
                      (case shapeParameters zodSupportsCoerce isRequired shape pathParameters inType of
                         Inl e \<Rightarrow> Inl e
                       | Inr ps \<Rightarrow>
                           (\<lambda>(path', query').
                              Inr (Some \<lparr> header = headersSchema,
                                          path = z_object path',
                                          query = z_object query' \<rparr>))
                           (foldl addParameter ([], []) ps)))"

section \<open>getRequestBodyObject\<close>

text \<open>
  A media type's schema is a validator node or a plain schema object of the API
  description: \<^verbatim>\<open>{}\<close> is \<open>SchemaObject []\<close> and \<^verbatim>\<open>{ not: {} }\<close> is
  \<open>SchemaObject [(''not'', SchemaObject [])]\<close>.
\<close>

datatype schemaObject = ZodSchema zod | SchemaObject "(string \<times> schemaObject) list"

record ZodOpenApiMediaTypeObject =
  mediaSchema :: schemaObject

type_synonym ZodOpenApiContentObject = "(string \<times> ZodOpenApiMediaTypeObject) list"

record ZodOpenApiRequestBodyObject =
  bodyRequired :: bool
  bodyContent :: ZodOpenApiContentObject

text \<open>
  Lines 150 to 199. The mask of line 177 is an object literal, so besides the path
  parameters that lines 178 to 180 set in it, the keys it inherits are truthy in it too.
\<close>

definition getRequestBodyObject ::
  "(openapi_metadata option \<Rightarrow> openapi_metadata option) \<Rightarrow> unknown \<Rightarrow> string list \<Rightarrow> string list \<Rightarrow>
   error + ZodOpenApiRequestBodyObject option" where
  "getRequestBodyObject omitOpenApi schema pathParameters contentTypes =
     (case instanceofZodType schema of
        None \<Rightarrow> Inl (NotAValidator ''Input'')
      | Some s \<Rightarrow>
          let isRequired = \<not> isOptional s;
              unwrappedSchema = unwrapZodType s True
          in if pathParameters = [] \<and> instanceofZodTypeLikeVoid unwrappedSchema then Inr None
             else if \<not> instanceofZodTypeObject unwrappedSchema then Inl InputNotObject
             else
               let mask' = fold (\<lambda>pathParameter mask'. mask'(pathParameter := True))
                             pathParameters emptyObject;
                   dedupedSchema = omit omitOpenApi mask' unwrappedSchema
               in if pathParameters \<noteq> [] \<and> length (map fst (shapeOf dedupedSchema)) = 0
                  then Inr None
                  else
                    let content = fold (\<lambda>contentType content.
                                    AList.update contentType \<lparr> mediaSchema = ZodSchema dedupedSchema \<rparr> content)
                                    contentTypes []
                    in Inr (Some \<lparr> bodyRequired = isRequired, bodyContent = content \<rparr>))"

section \<open>getResponsesObject\<close>

record ZodOpenApiResponseObject =
  description :: string
  responseHeaders :: "zod option"
  responseContent :: ZodOpenApiContentObject

type_synonym ZodOpenApiResponsesObject = "(string \<times> ZodOpenApiResponseObject) list"

definition errorResponseObject :: ZodOpenApiResponseObject where
  "errorResponseObject =
     \<lparr> description = ''Error response'',
       responseHeaders = None,
       responseContent =
         [(''application/json'',
           \<lparr> mediaSchema = ZodSchema
               (openapi [(''ref'', JsonString ''Error''), (''title'', JsonString ''Error''),
                         (''description'', JsonString ''The error information'')]
                 (z_object
                   [(''message'',
                     openapi [(''description'', JsonString ''The error message''),
                              (''example'', JsonString ''Internal server error'')] z_string),
                    (''code'',
                     openapi [(''description'', JsonString ''The error code''),
                              (''example'', JsonString ''INTERNAL_SERVER_ERROR'')] z_string),
                    (''issues'',
                     openapi [(''description'',
                                JsonString ''An array of issues that were responsible for the error''),
                              (''example'', JsonArray [])]
                       (optional (z_array (z_object [(''message'', z_string)]))))])) \<rparr>)] \<rparr>"

definition getResponsesObject ::
  "unknown \<Rightarrow> zod option \<Rightarrow> error + ZodOpenApiResponsesObject" where
  "getResponsesObject schema headers =
     (case instanceofZodType schema of
        None \<Rightarrow> Inl (NotAValidator ''Output'')
      | Some s \<Rightarrow>
          let successResponseObject =
                \<lparr> description = ''Successful response'',
                  responseHeaders = headers,
                  responseContent =
                    [(''application/json'',
                      \<lparr> mediaSchema =
                          (if instanceofZodTypeKind s ZodVoid then SchemaObject []
                           else if instanceofZodTypeKind s ZodNever \<or> instanceofZodTypeKind s ZodUndefined
                           then SchemaObject [(''not'', SchemaObject [])]
                           else ZodSchema s) \<rparr>)] \<rparr>
          in Inr [(''200'', successResponseObject), (''default'', errorResponseObject)])"

section \<open>Evaluating the model\<close>

text \<open>The defining equations that the simplifier unfolds to run the model on a concrete input.\<close>

lemmas schema_defs =
  getParameterObjects_def getRequestBodyObject_def getResponsesObject_def
  shapeParameters_def toParameter_def inScope_def addParameter_def
  instanceofZodTypeLikeVoid_def instanceofZodTypeObject_def instanceofZodTypeOptional_def
  instanceofZodTypeLikeString_def instanceofZodTypeCoercible_def instanceofZodTypeKind_def
  z_object_def z_string_def z_number_def z_void_def z_never_def optional_def withDefault_def
  UnsupportedFieldType_def OptionalPathParameter_def NotAValidator_def InputNotObject_def
  INTERNAL_SERVER_ERROR_def quoted_def objectPrototypeKeys_def emptyObject_def Let_def

section \<open>Facts about the parts\<close>

subsection \<open>The map that may throw\<close>

lemma mapE_Inr_iff:
  "mapE f xs = Inr ys \<longleftrightarrow> list_all2 (\<lambda>x y. f x = Inr y) xs ys"
proof (induction xs arbitrary: ys)
  case Nil
  then show ?case by auto
next
  case (Cons x xs)
  show ?case
  proof (cases "f x")
    case (Inl e)
    then show ?thesis by (cases ys) auto
  next
    case (Inr y)
    show ?thesis
    proof (cases "mapE f xs")
      case (Inl e)
      with Inr Cons.IH show ?thesis
        by (cases ys) auto
    next
      case r: (Inr ys')
      with Inr Cons.IH[of ys'] Cons.IH show ?thesis
        by (cases ys) auto
    qed
  qed
qed

lemma mapE_Inl_first:
  assumes "\<forall>y\<in>set ys. \<exists>v. f y = Inr v" and "f x = Inl e"
  shows "mapE f (ys @ x # zs) = Inl e"
  using assms by (induction ys) (auto split: sum.splits)

lemma mapE_fails:
  "x \<in> set xs \<Longrightarrow> f x = Inl e \<Longrightarrow> \<exists>e'. mapE f xs = Inl e'"
  by (induction xs) (auto split: sum.splits)

lemma mapE_Inl_prefix:
  assumes "f k = Inl e0"
  shows "\<exists>x\<in>set (ys @ [k]). \<exists>e. f x = Inl e \<and> mapE f (ys @ k # zs) = Inl e"
  using assms
proof (induction ys)
  case Nil
  then show ?case by simp
next
  case (Cons y ys)
  show ?case
  proof (cases "f y")
    case (Inl e)
    then show ?thesis by simp
  next
    case (Inr v)
    from Cons.IH[OF Cons.prems] obtain x e where
      "x \<in> set (ys @ [k])" "f x = Inl e" "mapE f (ys @ k # zs) = Inl e"
      by blast
    with Inr show ?thesis by auto
  qed
qed

subsection \<open>The parameter of one field\<close>

lemma toParameter_Inr:
  assumes "toParameter c isRequired shape pp k = Inr p"
  shows "\<exists>f. map_of shape k = Some f \<and>
           name p = k \<and>
           paramType p = (if k \<in> set pp then ParamPath else ParamQuery) \<and>
           required p = (k \<in> set pp \<or> (isRequired \<and> \<not> isOptional f)) \<and>
           paramSchema p = (if instanceofZodTypeOptional f then unwrap f else f) \<and>
           \<not> (instanceofZodTypeOptional f \<and> k \<in> set pp) \<and>
           (instanceofZodTypeLikeString f \<or> instanceofZodTypeCoercible c f)"
proof (cases "map_of shape k")
  case None
  with assms show ?thesis by (simp add: toParameter_def)
next
  case (Some f)
  with assms show ?thesis
    by (cases c) (auto simp: toParameter_def Let_def split: if_splits)
qed

lemma toParameter_unsupported:
  assumes "map_of shape k = Some f"
    and "\<not> instanceofZodTypeLikeString f" and "\<not> instanceofZodTypeCoercible c f"
  shows "toParameter c isRequired shape pp k = Inl (UnsupportedFieldType c k)"
  using assms by (cases c) (simp_all add: toParameter_def)

lemma toParameter_optional_path:
  assumes "map_of shape k = Some f"
    and "instanceofZodTypeLikeString f \<or> instanceofZodTypeCoercible c f"
    and "instanceofZodTypeOptional f" and "k \<in> set pp"
  shows "toParameter c isRequired shape pp k = Inl (OptionalPathParameter k)"
  using assms by (cases c) (auto simp: toParameter_def instanceofZodTypeCoercible_def)

lemma toParameter_accepted:
  assumes "map_of shape k = Some f"
    and "instanceofZodTypeLikeString f \<or> instanceofZodTypeCoercible c f"
    and "\<not> (instanceofZodTypeOptional f \<and> k \<in> set pp)"
  shows "\<exists>p. toParameter c isRequired shape pp k = Inr p"
  using assms by (cases c) (auto simp: toParameter_def Let_def instanceofZodTypeCoercible_def)

lemma toParameter_Inl:
  assumes "toParameter c isRequired shape pp k = Inl e"
  shows "(map_of shape k = None \<and> e = TypeError) \<or>
         (\<exists>g. map_of shape k = Some g \<and> \<not> instanceofZodTypeLikeString g \<and>
              \<not> instanceofZodTypeCoercible c g \<and> e = UnsupportedFieldType c k) \<or>
         (\<exists>g. map_of shape k = Some g \<and>
              (instanceofZodTypeLikeString g \<or> instanceofZodTypeCoercible c g) \<and>
              instanceofZodTypeOptional g \<and> k \<in> set pp \<and> e = OptionalPathParameter k)"
proof (cases "map_of shape k")
  case None
  with assms show ?thesis by (simp add: toParameter_def)
next
  case (Some g)
  show ?thesis
  proof (cases "instanceofZodTypeLikeString g \<or> instanceofZodTypeCoercible c g")
    case False
    with toParameter_unsupported[OF Some, of c isRequired pp] assms Some show ?thesis
      by simp
  next
    case ok: True
    show ?thesis
    proof (cases "instanceofZodTypeOptional g \<and> k \<in> set pp")
      case True
      with toParameter_optional_path[OF Some ok, of pp isRequired] assms Some ok show ?thesis
        by simp
    next
      case False
      from toParameter_accepted[OF Some ok False, of isRequired] assms show ?thesis
        by simp
    qed
  qed
qed

subsection \<open>The parameters of the fields in scope\<close>

lemma shapeParameters_Inr:
  assumes "shapeParameters c isRequired shape pp t = Inr ps"
  shows "map name ps = filter (inScope t pp) (map fst shape)"
    and "\<forall>p\<in>set ps. toParameter c isRequired shape pp (name p) = Inr p"
    and "\<forall>p\<in>set ps. \<forall>q\<in>set ps. name p = name q \<longrightarrow> p = q"
proof -
  let ?f = "toParameter c isRequired shape pp"
  let ?ks = "filter (inScope t pp) (map fst shape)"
  from assms have all2: "list_all2 (\<lambda>k p. ?f k = Inr p) ?ks ps"
    by (simp add: shapeParameters_def mapE_Inr_iff)
  have nm: "\<And>k p. ?f k = Inr p \<Longrightarrow> name p = k"
    using toParameter_Inr by blast
  from all2 have "list_all2 (\<lambda>k p. name p = k) ?ks ps"
    by (rule list_all2_mono) (rule nm)
  then have "list_all2 (\<lambda>k p. k = name p) ?ks ps"
    by (rule list_all2_mono) simp
  then show 1: "map name ps = ?ks"
    by (simp add: list_all2_conv_all_nth list_eq_iff_nth_eq)
  show 2: "\<forall>p\<in>set ps. ?f (name p) = Inr p"
  proof
    fix p assume "p \<in> set ps"
    then obtain i where i: "i < length ps" "ps ! i = p"
      by (auto simp: in_set_conv_nth)
    with all2 have "?f (?ks ! i) = Inr p"
      by (auto simp: list_all2_conv_all_nth)
    moreover from this have "name p = ?ks ! i" by (rule nm)
    ultimately show "?f (name p) = Inr p" by simp
  qed
  show "\<forall>p\<in>set ps. \<forall>q\<in>set ps. name p = name q \<longrightarrow> p = q"
  proof (intro ballI impI)
    fix p q assume "p \<in> set ps" "q \<in> set ps" "name p = name q"
    with 2 have "Inr p = (Inr q :: error + parameter)" by metis
    then show "p = q" by simp
  qed
qed

lemma shapeParameters_first_rejected:
  assumes "filter (inScope t pp) (map fst shape) = ys @ k # zs"
    and "\<forall>y\<in>set ys. \<exists>g. map_of shape y = Some g \<and>
           (instanceofZodTypeLikeString g \<or> instanceofZodTypeCoercible c g) \<and>
           \<not> (instanceofZodTypeOptional g \<and> y \<in> set pp)"
    and "toParameter c isRequired shape pp k = Inl e"
  shows "shapeParameters c isRequired shape pp t = Inl e"
proof -
  from assms(2) have "\<forall>y\<in>set ys. \<exists>v. toParameter c isRequired shape pp y = Inr v"
    using toParameter_accepted by blast
  from mapE_Inl_first[OF this assms(3)] show ?thesis
    by (simp add: shapeParameters_def assms(1))
qed

lemma shapeParameters_rejected:
  assumes "k \<in> set (filter (inScope t pp) (map fst shape))"
    and "toParameter c isRequired shape pp k = Inl e"
  shows "\<exists>e'. shapeParameters c isRequired shape pp t = Inl e'"
  unfolding shapeParameters_def using assms by (rule mapE_fails)

lemma shapeParameters_prefix:
  assumes "filter (inScope t pp) (map fst shape) = ys @ k # zs"
    and "toParameter c isRequired shape pp k = Inl e0"
  shows "\<exists>x\<in>set (ys @ [k]). \<exists>e. toParameter c isRequired shape pp x = Inl e \<and>
           shapeParameters c isRequired shape pp t = Inl e"
  unfolding shapeParameters_def assms(1) using assms(2) by (rule mapE_Inl_prefix)

subsection \<open>The path and the query object\<close>

lemma addParameter_pair:
  "addParameter (a, b) p =
     (if paramType p = ParamPath
      then (AList.update (name p) (if required p then paramSchema p else optional (paramSchema p)) a, b)
      else (a, AList.update (name p) (if required p then paramSchema p else optional (paramSchema p)) b))"
  by (simp add: addParameter_def)

lemma foldl_addParameter_entry:
  assumes "\<forall>p\<in>set ps. \<forall>q\<in>set ps. name p = name q \<longrightarrow> p = q" and "p \<in> set ps"
  shows "map_of ((if paramType p = ParamPath then fst else snd) (foldl addParameter acc ps)) (name p)
         = Some (if required p then paramSchema p else optional (paramSchema p))"
  using assms
proof (induction ps rule: rev_induct)
  case Nil
  then show ?case by simp
next
  case (snoc x xs)
  obtain a b where ab: "foldl addParameter acc xs = (a, b)"
    by (cases "foldl addParameter acc xs")
  show ?case
  proof (cases "p = x")
    case True
    then show ?thesis
      by (simp add: ab addParameter_pair update_conv')
  next
    case False
    with snoc.prems have px: "p \<in> set xs" and ne: "name p \<noteq> name x"
      by auto
    from snoc.prems(1) have "\<forall>p\<in>set xs. \<forall>q\<in>set xs. name p = name q \<longrightarrow> p = q"
      by simp
    from snoc.IH[OF this px]
    have "map_of ((if paramType p = ParamPath then fst else snd) (a, b)) (name p)
         = Some (if required p then paramSchema p else optional (paramSchema p))"
      by (simp only: ab)
    with ne show ?thesis
      by (simp add: ab addParameter_pair update_conv' split: if_splits)
  qed
qed



subsection \<open>Object nodes\<close>

lemma shapeOf_z_object: "shapeOf (z_object al) = al"
  by (simp add: z_object_def)

lemma shapeOf_nonempty_object:
  "shapeOf u \<noteq> [] \<Longrightarrow> instanceofZodTypeObject u"
proof -
  assume ne: "shapeOf u \<noteq> []"
  obtain d m where u: "u = Zod d m" by (cases u)
  with ne show ?thesis
    by (cases d) (simp_all add: instanceofZodTypeObject_def instanceofZodTypeKind_def)
qed

lemma object_node:
  assumes "instanceofZodTypeObject u"
  shows "u = Zod (ZodObjectDef (shapeOf u)) (zodOpenApi u)" and "\<not> instanceofZodTypeLikeVoid u"
proof -
  obtain d m where u: "u = Zod d m" by (cases u)
  with assms show "u = Zod (ZodObjectDef (shapeOf u)) (zodOpenApi u)"
    by (cases d) (simp_all add: instanceofZodTypeObject_def instanceofZodTypeKind_def)
  from assms show "\<not> instanceofZodTypeLikeVoid u"
    by (simp add: instanceofZodTypeObject_def instanceofZodTypeLikeVoid_def instanceofZodTypeKind_def)
qed

subsection \<open>The stages of \<^verbatim>\<open>getParameterObjects\<close>\<close>

lemma getParameterObjects_Some:
  assumes "getParameterObjects c (ZodType s) pp h t = Inr (Some r)"
  shows "instanceofZodTypeObject (unwrapZodType s True) \<and>
         set pp \<subseteq> fst ` set (shapeOf (unwrapZodType s True)) \<and>
         (\<exists>ps. shapeParameters c (\<not> isOptional s) (shapeOf (unwrapZodType s True)) pp t = Inr ps \<and>
               r = \<lparr> header = h,
                     path = z_object (fst (foldl addParameter ([], []) ps)),
                     query = z_object (snd (foldl addParameter ([], []) ps)) \<rparr>)"
proof -
  let ?u = "unwrapZodType s True"
  from assms have obj: "instanceofZodTypeObject ?u"
    by (auto simp: getParameterObjects_def Let_def split: if_splits)
  from assms have nv: "\<not> (pp = [] \<and> instanceofZodTypeLikeVoid ?u)"
    by (auto simp: getParameterObjects_def Let_def split: if_splits)
  from assms obj nv have fnd: "find (\<lambda>pathParameter. pathParameter \<notin> set (map fst (shapeOf ?u))) pp = None"
    by (cases "find (\<lambda>pathParameter. pathParameter \<notin> set (map fst (shapeOf ?u))) pp")
       (auto simp: getParameterObjects_def Let_def)
  then have sub: "set pp \<subseteq> fst ` set (shapeOf ?u)"
    by (auto simp: find_None_iff)
  from assms obj nv fnd obtain ps where
    ps: "shapeParameters c (\<not> isOptional s) (shapeOf ?u) pp t = Inr ps"
    by (cases "shapeParameters c (\<not> isOptional s) (shapeOf ?u) pp t")
       (auto simp: getParameterObjects_def Let_def)
  from assms obj nv fnd ps have
    "r = \<lparr> header = h,
           path = z_object (fst (foldl addParameter ([], []) ps)),
           query = z_object (snd (foldl addParameter ([], []) ps)) \<rparr>"
    by (cases "foldl addParameter ([], []) ps") (auto simp: getParameterObjects_def Let_def)
  with obj sub ps show ?thesis by blast
qed

lemma getParameterObjects_object:
  assumes "instanceofZodTypeObject (unwrapZodType s True)"
    and "set pp \<subseteq> fst ` set (shapeOf (unwrapZodType s True))"
  shows "getParameterObjects c (ZodType s) pp h t =
     (case shapeParameters c (\<not> isOptional s) (shapeOf (unwrapZodType s True)) pp t of
        Inl e \<Rightarrow> Inl e
      | Inr ps \<Rightarrow> Inr (Some \<lparr> header = h,
                               path = z_object (fst (foldl addParameter ([], []) ps)),
                               query = z_object (snd (foldl addParameter ([], []) ps)) \<rparr>))"
proof -
  let ?u = "unwrapZodType s True"
  from assms(2) have fnd: "find (\<lambda>pathParameter. pathParameter \<notin> set (map fst (shapeOf ?u))) pp = None"
    by (auto simp: find_None_iff)
  from object_node(2)[OF assms(1)] have nv: "\<not> instanceofZodTypeLikeVoid ?u" .
  show ?thesis
  proof (cases "shapeParameters c (\<not> isOptional s) (shapeOf ?u) pp t")
    case (Inl e)
    with assms(1) nv fnd show ?thesis
      by (simp add: getParameterObjects_def Let_def)
  next
    case (Inr ps)
    with assms(1) nv fnd show ?thesis
      by (cases "foldl addParameter ([], []) ps") (simp add: getParameterObjects_def Let_def)
  qed
qed

lemma getParameterObjects_unknown_path:
  assumes "\<not> set pp \<subseteq> fst ` set (shapeOf (unwrapZodType s True))"
  shows "\<exists>e. getParameterObjects c (ZodType s) pp h t = Inl e"
proof -
  let ?u = "unwrapZodType s True"
  from assms obtain a where
    a: "find (\<lambda>pathParameter. pathParameter \<notin> set (map fst (shapeOf ?u))) pp = Some a"
    by (cases "find (\<lambda>pathParameter. pathParameter \<notin> set (map fst (shapeOf ?u))) pp")
       (auto simp: find_None_iff)
  from assms have "pp \<noteq> []" by auto
  with a show ?thesis
    by (simp add: getParameterObjects_def Let_def)
qed

lemma getParameterObjects_header:
  "getParameterObjects c x pp h t =
     (case getParameterObjects c x pp h' t of
        Inl e \<Rightarrow> Inl e
      | Inr None \<Rightarrow> Inr None
      | Inr (Some r) \<Rightarrow> Inr (Some (r\<lparr> header := h \<rparr>)))"
proof (cases x)
  case NotZodType
  then show ?thesis by (simp add: getParameterObjects_def Let_def)
next
  case (ZodType s)
  let ?u = "unwrapZodType s True"
  show ?thesis
  proof (cases "pp = [] \<and> instanceofZodTypeLikeVoid ?u")
    case True
    with ZodType show ?thesis by (simp add: getParameterObjects_def Let_def)
  next
    case nv: False
    show ?thesis
    proof (cases "instanceofZodTypeObject ?u")
      case False
      with ZodType nv show ?thesis by (simp add: getParameterObjects_def Let_def)
    next
      case obj: True
      show ?thesis
      proof (cases "find (\<lambda>pathParameter. pathParameter \<notin> set (map fst (shapeOf ?u))) pp")
        case (Some a)
        with ZodType nv obj show ?thesis by (simp add: getParameterObjects_def Let_def)
      next
        case None
        show ?thesis
        proof (cases "shapeParameters c (\<not> isOptional s) (shapeOf ?u) pp t")
          case (Inl e)
          with ZodType nv obj None show ?thesis by (simp add: getParameterObjects_def Let_def)
        next
          case (Inr ps)
          with ZodType nv obj None show ?thesis
            by (cases "foldl addParameter ([], []) ps") (simp add: getParameterObjects_def Let_def)
        qed
      qed
    qed
  qed
qed

subsection \<open>The mask and the content of \<^verbatim>\<open>getRequestBodyObject\<close>\<close>

lemma fold_mask:
  "fold (\<lambda>pathParameter m. m(pathParameter := True)) pp m0 k = (k \<in> set pp \<or> m0 k)"
  by (induction pp arbitrary: m0) auto

lemma mask_filter:
  "filter (\<lambda>(k, v). \<not> fold (\<lambda>pathParameter m. m(pathParameter := True)) pp emptyObject k) sh =
     filter (\<lambda>(k, v). k \<notin> set pp \<and> k \<notin> set objectPrototypeKeys) sh"
  by (rule filter_cong) (auto simp: fold_mask emptyObject_def)



lemma getRequestBodyObject_ZodObject:
  assumes "unwrapZodType s True = Zod (ZodObjectDef sh) m"
  shows "getRequestBodyObject omitOpenApi (ZodType s) pp cts =
     (if pp \<noteq> [] \<and> filter (\<lambda>(k, v). k \<notin> set pp \<and> k \<notin> set objectPrototypeKeys) sh = []
      then Inr None
      else Inr (Some \<lparr> bodyRequired = \<not> isOptional s,
                        bodyContent = fold (\<lambda>contentType content. AList.update contentType
                           \<lparr> mediaSchema = ZodSchema
                               (Zod (ZodObjectDef
                                  (filter (\<lambda>(k, v). k \<notin> set pp \<and> k \<notin> set objectPrototypeKeys) sh))
                                  (omitOpenApi m)) \<rparr>
                           content) cts [] \<rparr>))"
  unfolding getRequestBodyObject_def
  by (simp add: assms Let_def mask_filter emptyObject_def instanceofZodTypeLikeVoid_def
      instanceofZodTypeObject_def instanceofZodTypeKind_def)

subsection \<open>The messages\<close>

lemma UnsupportedFieldType_message:
  "UnsupportedFieldType c k =
     TRPCError
       (''Input parser key: '' @ quoted k @
          (if c then '' must be ZodString, ZodNumber, ZodBoolean, ZodBigInt or ZodDate''
           else '' must be ZodString''))
       ''INTERNAL_SERVER_ERROR''"
  by (simp add: UnsupportedFieldType_def INTERNAL_SERVER_ERROR_def)

lemma OptionalPathParameter_message:
  "OptionalPathParameter k =
     TRPCError (''Path parameter: '' @ quoted k @ '' must not be optional'') ''INTERNAL_SERVER_ERROR''"
  by (simp add: OptionalPathParameter_def INTERNAL_SERVER_ERROR_def)

section \<open>The required flag of a parameter (C1)\<close>

text \<open>
  Claim C1. Whenever \<^verbatim>\<open>getParameterObjects\<close> returns a result, every field in scope has
  one derived parameter, in the order of the shape, and for each of them: it is a path
  parameter iff its name is declared in \<^verbatim>\<open>pathParameters\<close>; it is required iff it
  is a path parameter, or neither the top-level schema nor the field's own node accepts an
  absent value (\<^verbatim>\<open>isRequired = !schema.isOptional()\<close> and
  \<^verbatim>\<open>isShapeRequired = !shapeSchema.isOptional()\<close>); its node is the field's node with one
  optional wrapper taken off; and the entry under its name in the returned path or query
  object is that node when the parameter is required and that node wrapped in an optional
  marker when it is not.
\<close>

theorem getParameterObjects_required:
  assumes "getParameterObjects c (ZodType s) pp h t = Inr (Some r)"
  shows "\<exists>ps. shapeParameters c (\<not> isOptional s) (shapeOf (unwrapZodType s True)) pp t = Inr ps \<and>
           map name ps = filter (inScope t pp) (map fst (shapeOf (unwrapZodType s True))) \<and>
           (\<forall>p\<in>set ps. \<exists>f. map_of (shapeOf (unwrapZodType s True)) (name p) = Some f \<and>
              (paramType p = ParamPath \<longleftrightarrow> name p \<in> set pp) \<and>
              (required p \<longleftrightarrow> name p \<in> set pp \<or> (\<not> isOptional s \<and> \<not> isOptional f)) \<and>
              paramSchema p = (if instanceofZodTypeOptional f then unwrap f else f) \<and>
              map_of (shapeOf (if paramType p = ParamPath then path r else query r)) (name p) =
                Some (if required p then paramSchema p else optional (paramSchema p)))"
proof -
  let ?shape = "shapeOf (unwrapZodType s True)"
  from getParameterObjects_Some[OF assms] obtain ps where
    ps: "shapeParameters c (\<not> isOptional s) ?shape pp t = Inr ps" and
    r: "r = \<lparr> header = h,
              path = z_object (fst (foldl addParameter ([], []) ps)),
              query = z_object (snd (foldl addParameter ([], []) ps)) \<rparr>"
    by blast
  note sp = shapeParameters_Inr[OF ps]
  have "\<exists>f. map_of ?shape (name p) = Some f \<and>
              (paramType p = ParamPath \<longleftrightarrow> name p \<in> set pp) \<and>
              (required p \<longleftrightarrow> name p \<in> set pp \<or> (\<not> isOptional s \<and> \<not> isOptional f)) \<and>
              paramSchema p = (if instanceofZodTypeOptional f then unwrap f else f) \<and>
              map_of (shapeOf (if paramType p = ParamPath then path r else query r)) (name p) =
                Some (if required p then paramSchema p else optional (paramSchema p))"
    if p: "p \<in> set ps" for p
  proof -
    from sp(2) p have "toParameter c (\<not> isOptional s) ?shape pp (name p) = Inr p"
      by blast
    from toParameter_Inr[OF this] obtain f where
      f: "map_of ?shape (name p) = Some f"
         "paramType p = (if name p \<in> set pp then ParamPath else ParamQuery)"
         "required p = (name p \<in> set pp \<or> (\<not> isOptional s \<and> \<not> isOptional f))"
         "paramSchema p = (if instanceofZodTypeOptional f then unwrap f else f)"
      by blast
    have "map_of ((if paramType p = ParamPath then fst else snd) (foldl addParameter ([], []) ps)) (name p)
         = Some (if required p then paramSchema p else optional (paramSchema p))"
      using sp(3) p by (rule foldl_addParameter_entry)
    then have "map_of (shapeOf (if paramType p = ParamPath then path r else query r)) (name p) =
                Some (if required p then paramSchema p else optional (paramSchema p))"
      by (simp add: r shapeOf_z_object split: if_splits)
    with f show ?thesis
      by (intro exI[of _ f]) simp
  qed
  with ps sp(1) show ?thesis by blast
qed

text \<open>
  An optional object with a path field, an optional field and a required number field: the
  path parameter is required, the two query parameters are not, and their entries are
  wrapped in the optional marker.
\<close>

theorem getParameterObjects_required_witness:
  "getParameterObjects True
     (ZodType (optional (z_object [(''id'', z_string), (''name'', optional z_string), (''size'', z_number)])))
     [''id''] None InAll =
     Inr (Some \<lparr> header = None,
                 path = z_object [(''id'', z_string)],
                 query = z_object [(''name'', optional z_string), (''size'', optional z_number)] \<rparr>) \<and>
   (\<exists>ps. shapeParameters True
            (\<not> isOptional (optional (z_object [(''id'', z_string), (''name'', optional z_string), (''size'', z_number)])))
            (shapeOf (unwrapZodType
               (optional (z_object [(''id'', z_string), (''name'', optional z_string), (''size'', z_number)])) True))
            [''id''] InAll = Inr ps \<and>
          map name ps = [''id'', ''name'', ''size''] \<and>
          map required ps = [True, False, False])"
proof -
  let ?s = "optional (z_object [(''id'', z_string), (''name'', optional z_string), (''size'', z_number)])"
  let ?r = "\<lparr> header = None,
                 path = z_object [(''id'', z_string)],
                 query = z_object [(''name'', optional z_string), (''size'', optional z_number)] \<rparr>"
  have h: "getParameterObjects True (ZodType ?s) [''id''] None InAll = Inr (Some ?r)"
    by (simp add: schema_defs)
  from getParameterObjects_required[OF h] obtain ps where
    ps: "shapeParameters True (\<not> isOptional ?s) (shapeOf (unwrapZodType ?s True)) [''id''] InAll = Inr ps"
    and nm: "map name ps = filter (inScope InAll [''id'']) (map fst (shapeOf (unwrapZodType ?s True)))"
    and rq: "\<forall>p\<in>set ps. \<exists>f. map_of (shapeOf (unwrapZodType ?s True)) (name p) = Some f \<and>
              (paramType p = ParamPath \<longleftrightarrow> name p \<in> set [''id'']) \<and>
              (required p \<longleftrightarrow> name p \<in> set [''id''] \<or> (\<not> isOptional ?s \<and> \<not> isOptional f)) \<and>
              paramSchema p = (if instanceofZodTypeOptional f then unwrap f else f) \<and>
              map_of (shapeOf (if paramType p = ParamPath then path ?r else query ?r)) (name p) =
                Some (if required p then paramSchema p else optional (paramSchema p))"
    by (elim exE conjE)
  from nm have nm': "map name ps = [''id'', ''name'', ''size'']"
    by (simp add: schema_defs)
  then obtain p1 p2 p3 where l: "ps = [p1, p2, p3]"
    and n: "name p1 = ''id''" "name p2 = ''name''" "name p3 = ''size''"
    by (auto simp: map_eq_Cons_conv)
  have "required p = (name p = ''id'')" if "p \<in> set ps" for p
    using rq[rule_format, OF that] by (elim exE conjE) (simp add: optional_def)
  with l n have "map required ps = [True, False, False]"
    by simp
  with ps nm' show ?thesis
    by (intro conjI exI[of _ ps]) (rule h ps nm' | assumption)+
qed

text \<open>
  Required-ness follows \<^verbatim>\<open>isOptional()\<close>, not the optional wrapper: an object schema
  with a default is not optional-wrapped and its string field is not optional, yet the
  schema accepts an absent value, so the query parameter is not required and its entry is
  wrapped in the optional marker.
\<close>

theorem getParameterObjects_required_counterexample:
  "getParameterObjects True (ZodType (withDefault (z_object [(''a'', z_string)]))) [] None InAll =
     Inr (Some \<lparr> header = None, path = z_object [], query = z_object [(''a'', optional z_string)] \<rparr>) \<and>
   shapeParameters True (\<not> isOptional (withDefault (z_object [(''a'', z_string)])))
     (shapeOf (unwrapZodType (withDefault (z_object [(''a'', z_string)])) True)) [] InAll =
     Inr [\<lparr> name = ''a'', paramType = ParamQuery, required = False, paramSchema = z_string \<rparr>] \<and>
   \<not> instanceofZodTypeOptional (withDefault (z_object [(''a'', z_string)])) \<and>
   \<not> instanceofZodTypeOptional z_string \<and>
   \<not> isOptional z_string"
  by (simp add: getParameterObjects_def shapeParameters_def toParameter_def inScope_def
      addParameter_def withDefault_def z_object_def z_string_def optional_def
      instanceofZodTypeLikeVoid_def instanceofZodTypeObject_def instanceofZodTypeOptional_def
      instanceofZodTypeLikeString_def instanceofZodTypeKind_def)

section \<open>Path parameters are required (C2)\<close>

text \<open>
  Claim C2. Whenever \<^verbatim>\<open>getParameterObjects\<close> returns a result, every derived parameter
  that is a path parameter has \<^verbatim>\<open>required = true\<close>, its node is the field's own node,
  and the path object holds that node unwrapped under its name, whatever
  \<^verbatim>\<open>isOptional()\<close> says of the node; and unless the scope is \<^verbatim>\<open>'query'\<close>, every
  declared path-parameter name has such a parameter.
\<close>

theorem path_parameters_required:
  assumes "getParameterObjects c (ZodType s) pp h t = Inr (Some r)"
  shows "\<exists>ps. shapeParameters c (\<not> isOptional s) (shapeOf (unwrapZodType s True)) pp t = Inr ps \<and>
           (\<forall>p\<in>set ps. paramType p = ParamPath \<longrightarrow>
              required p \<and>
              map_of (shapeOf (unwrapZodType s True)) (name p) = Some (paramSchema p) \<and>
              map_of (shapeOf (path r)) (name p) = Some (paramSchema p)) \<and>
           (t \<noteq> InQuery \<longrightarrow> (\<forall>k\<in>set pp. \<exists>p\<in>set ps. name p = k \<and> paramType p = ParamPath))"
proof -
  let ?shape = "shapeOf (unwrapZodType s True)"
  from getParameterObjects_Some[OF assms] obtain ps where
    sub: "set pp \<subseteq> fst ` set ?shape" and
    ps: "shapeParameters c (\<not> isOptional s) ?shape pp t = Inr ps" and
    r: "r = \<lparr> header = h,
              path = z_object (fst (foldl addParameter ([], []) ps)),
              query = z_object (snd (foldl addParameter ([], []) ps)) \<rparr>"
    by blast
  note sp = shapeParameters_Inr[OF ps]
  have 1: "required p \<and> map_of ?shape (name p) = Some (paramSchema p) \<and>
           map_of (shapeOf (path r)) (name p) = Some (paramSchema p)"
    if p: "p \<in> set ps" and pt: "paramType p = ParamPath" for p
  proof -
    from sp(2) p have "toParameter c (\<not> isOptional s) ?shape pp (name p) = Inr p"
      by blast
    from toParameter_Inr[OF this] pt obtain f where
      f: "map_of ?shape (name p) = Some f" "name p \<in> set pp" "required p" "paramSchema p = f"
      by (auto split: if_splits)
    from foldl_addParameter_entry[OF sp(3) p, of "([], [])"] pt f(3)
    have "map_of (shapeOf (path r)) (name p) = Some (paramSchema p)"
      by (simp add: r shapeOf_z_object)
    with f show ?thesis by simp
  qed
  have 2: "\<exists>p\<in>set ps. name p = k \<and> paramType p = ParamPath"
    if t: "t \<noteq> InQuery" and k: "k \<in> set pp" for k
  proof -
    from k sub have "k \<in> set (map fst ?shape)" by auto
    moreover from t k have "inScope t pp k" by (simp add: inScope_def)
    ultimately have "k \<in> set (map name ps)" by (simp add: sp(1))
    then obtain p where p: "p \<in> set ps" "name p = k" by auto
    with sp(2) have "toParameter c (\<not> isOptional s) ?shape pp k = Inr p" by blast
    from toParameter_Inr[OF this] k have "paramType p = ParamPath" by auto
    with p show ?thesis by blast
  qed
  from ps 1 2 show ?thesis by blast
qed

text \<open>
  A path field with a default accepts an absent value, and its parameter is required all
  the same.
\<close>

theorem path_parameters_required_witness:
  "getParameterObjects False
     (ZodType (z_object [(''id'', withDefault z_string), (''name'', z_string)])) [''id''] None InPath =
     Inr (Some \<lparr> header = None, path = z_object [(''id'', withDefault z_string)], query = z_object [] \<rparr>) \<and>
   isOptional (withDefault z_string) \<and>
   (\<exists>ps. shapeParameters False (\<not> isOptional (z_object [(''id'', withDefault z_string), (''name'', z_string)]))
            (shapeOf (unwrapZodType (z_object [(''id'', withDefault z_string), (''name'', z_string)]) True))
            [''id''] InPath = Inr ps \<and>
          map name ps = [''id''] \<and> map paramType ps = [ParamPath] \<and> map required ps = [True])"
proof -
  let ?s = "z_object [(''id'', withDefault z_string), (''name'', z_string)]"
  let ?r = "\<lparr> header = None, path = z_object [(''id'', withDefault z_string)], query = z_object [] \<rparr>"
  have h: "getParameterObjects False (ZodType ?s) [''id''] None InPath = Inr (Some ?r)"
    by (simp add: schema_defs)
  have o: "isOptional (withDefault z_string)"
    by (simp add: withDefault_def)
  from path_parameters_required[OF h] obtain ps where
    ps: "shapeParameters False (\<not> isOptional ?s) (shapeOf (unwrapZodType ?s True)) [''id''] InPath = Inr ps"
    and rq: "\<forall>p\<in>set ps. paramType p = ParamPath \<longrightarrow>
              required p \<and>
              map_of (shapeOf (unwrapZodType ?s True)) (name p) = Some (paramSchema p) \<and>
              map_of (shapeOf (path ?r)) (name p) = Some (paramSchema p)"
    by (elim exE conjE)
  from shapeParameters_Inr(1)[OF ps] have nm: "map name ps = [''id'']"
    by (simp add: schema_defs)
  then obtain p1 where l: "ps = [p1]" and n: "name p1 = ''id''"
    by (auto simp: map_eq_Cons_conv)
  from shapeParameters_Inr(2)[OF ps] l n
  have "toParameter False (\<not> isOptional ?s) (shapeOf (unwrapZodType ?s True)) [''id''] ''id'' = Inr p1"
    by simp
  from toParameter_Inr[OF this] have pt: "paramType p1 = ParamPath"
    by (elim exE conjE) simp
  with l have pts: "map paramType ps = [ParamPath]" by simp
  from rq l pt have "map required ps = [True]" by simp
  with pts show ?thesis
    by (intro conjI exI[of _ ps]) (rule h o ps nm | assumption)+
qed

section \<open>The fields removed from the request body (C3)\<close>

text \<open>
  Claim C3. \<^verbatim>\<open>getRequestBodyObject\<close> is to remove exactly the fields named in
  \<^verbatim>\<open>pathParameters\<close> (line 176) and to return absent only when they were all the
  fields. It removes more: the mask of line 177 is an object literal, in which the keys
  inherited from \<^verbatim>\<open>Object.prototype\<close> are truthy, and \<^verbatim>\<open>omit\<close> drops every field
  whose key is truthy in the mask. For the object \<^verbatim>\<open>{id, toString}\<close> with the path
  parameter \<^verbatim>\<open>id\<close> the field \<^verbatim>\<open>toString\<close> is no path parameter, yet the result is
  absent; with a third field \<^verbatim>\<open>name\<close> the body holds \<^verbatim>\<open>name\<close> alone.
\<close>

theorem getRequestBodyObject_inherited_key:
  "''toString'' \<notin> set [''id''] \<and>
   getRequestBodyObject omitOpenApi (ZodType (z_object [(''id'', z_string), (''toString'', z_string)]))
     [''id''] [''application/json''] = Inr None \<and>
   getRequestBodyObject omitOpenApi
     (ZodType (z_object [(''id'', z_string), (''toString'', z_string), (''name'', z_string)]))
     [''id''] [''application/json''] =
     Inr (Some \<lparr> bodyRequired = True,
                 bodyContent = [(''application/json'',
                   \<lparr> mediaSchema = ZodSchema
                       (Zod (ZodObjectDef [(''name'', z_string)]) (omitOpenApi None)) \<rparr>)] \<rparr>)"
  by (simp add: schema_defs)

section \<open>The responses object (C4)\<close>

text \<open>
  Claim C4. For every validator node \<^verbatim>\<open>getResponsesObject\<close> returns exactly the two
  entries \<^verbatim>\<open>200\<close> and \<^verbatim>\<open>default\<close>, in this order. The \<^verbatim>\<open>default\<close> entry is
  \<open>errorResponseObject\<close>. The \<^verbatim>\<open>200\<close> entry carries the description, the headers it
  was given and one \<^verbatim>\<open>application/json\<close> media type, whose schema is \<^verbatim>\<open>{}\<close> for a
  node of kind void, \<^verbatim>\<open>{ not: {} }\<close> for a node of kind never or undefined, and the node
  itself otherwise.
\<close>

theorem getResponsesObject_entries:
  "\<exists>successResponseObject schema.
     getResponsesObject (ZodType s) headers =
       Inr [(''200'', successResponseObject), (''default'', errorResponseObject)] \<and>
     description successResponseObject = ''Successful response'' \<and>
     responseHeaders successResponseObject = headers \<and>
     responseContent successResponseObject = [(''application/json'', \<lparr> mediaSchema = schema \<rparr>)] \<and>
     (instanceofZodTypeKind s ZodVoid \<longrightarrow> schema = SchemaObject []) \<and>
     (instanceofZodTypeKind s ZodNever \<or> instanceofZodTypeKind s ZodUndefined \<longrightarrow>
        schema = SchemaObject [(''not'', SchemaObject [])]) \<and>
     (\<not> instanceofZodTypeKind s ZodVoid \<and> \<not> instanceofZodTypeKind s ZodNever \<and>
      \<not> instanceofZodTypeKind s ZodUndefined \<longrightarrow> schema = ZodSchema s)"
  by (simp add: getResponsesObject_def instanceofZodTypeKind_def)

text \<open>
  The three cases: a void node, a never node, and a node of another kind (an optional
  wrapper around void is not of kind void, so it is passed on unchanged).
\<close>

theorem getResponsesObject_entries_witness:
  "getResponsesObject (ZodType z_void) None =
     Inr [(''200'', \<lparr> description = ''Successful response'', responseHeaders = None,
                      responseContent = [(''application/json'', \<lparr> mediaSchema = SchemaObject [] \<rparr>)] \<rparr>),
          (''default'', errorResponseObject)] \<and>
   getResponsesObject (ZodType z_never) None =
     Inr [(''200'', \<lparr> description = ''Successful response'', responseHeaders = None,
                      responseContent = [(''application/json'',
                        \<lparr> mediaSchema = SchemaObject [(''not'', SchemaObject [])] \<rparr>)] \<rparr>),
          (''default'', errorResponseObject)] \<and>
   getResponsesObject (ZodType (optional z_void)) (Some (z_object [(''etag'', z_string)])) =
     Inr [(''200'', \<lparr> description = ''Successful response'',
                      responseHeaders = Some (z_object [(''etag'', z_string)]),
                      responseContent = [(''application/json'',
                        \<lparr> mediaSchema = ZodSchema (optional z_void) \<rparr>)] \<rparr>),
          (''default'', errorResponseObject)]"
proof -
  have eq: "ok = \<lparr> description = d, responseHeaders = hs, responseContent = [(ct, \<lparr> mediaSchema = sch \<rparr>)] \<rparr>"
    if "description ok = d" "responseHeaders ok = hs" "responseContent ok = [(ct, \<lparr> mediaSchema = sch \<rparr>)]"
    for ok :: ZodOpenApiResponseObject and d hs ct sch
    using that by (cases ok) simp
  have 1: "getResponsesObject (ZodType z_void) None =
     Inr [(''200'', \<lparr> description = ''Successful response'', responseHeaders = None,
                      responseContent = [(''application/json'', \<lparr> mediaSchema = SchemaObject [] \<rparr>)] \<rparr>),
          (''default'', errorResponseObject)]"
  proof -
    from getResponsesObject_entries[of z_void None] obtain ok sch where
      r: "getResponsesObject (ZodType z_void) None = Inr [(''200'', ok), (''default'', errorResponseObject)]"
      and f: "description ok = ''Successful response''" "responseHeaders ok = None"
        "responseContent ok = [(''application/json'', \<lparr> mediaSchema = sch \<rparr>)]"
      and v: "instanceofZodTypeKind z_void ZodVoid \<longrightarrow> sch = SchemaObject []"
      by (elim exE conjE)
    have "instanceofZodTypeKind z_void ZodVoid" by (simp add: schema_defs)
    with v have "sch = SchemaObject []" by simp
    with f have "ok = \<lparr> description = ''Successful response'', responseHeaders = None,
                      responseContent = [(''application/json'', \<lparr> mediaSchema = SchemaObject [] \<rparr>)] \<rparr>"
      by (intro eq) simp_all
    with r show ?thesis by simp
  qed
  have 2: "getResponsesObject (ZodType z_never) None =
     Inr [(''200'', \<lparr> description = ''Successful response'', responseHeaders = None,
                      responseContent = [(''application/json'',
                        \<lparr> mediaSchema = SchemaObject [(''not'', SchemaObject [])] \<rparr>)] \<rparr>),
          (''default'', errorResponseObject)]"
  proof -
    from getResponsesObject_entries[of z_never None] obtain ok sch where
      r: "getResponsesObject (ZodType z_never) None = Inr [(''200'', ok), (''default'', errorResponseObject)]"
      and f: "description ok = ''Successful response''" "responseHeaders ok = None"
        "responseContent ok = [(''application/json'', \<lparr> mediaSchema = sch \<rparr>)]"
      and v: "instanceofZodTypeKind z_never ZodNever \<or> instanceofZodTypeKind z_never ZodUndefined \<longrightarrow>
                sch = SchemaObject [(''not'', SchemaObject [])]"
      by (elim exE conjE)
    have "instanceofZodTypeKind z_never ZodNever" by (simp add: schema_defs)
    with v have "sch = SchemaObject [(''not'', SchemaObject [])]" by simp
    with f have "ok = \<lparr> description = ''Successful response'', responseHeaders = None,
                      responseContent = [(''application/json'',
                        \<lparr> mediaSchema = SchemaObject [(''not'', SchemaObject [])] \<rparr>)] \<rparr>"
      by (intro eq) simp_all
    with r show ?thesis by simp
  qed
  have 3: "getResponsesObject (ZodType (optional z_void)) (Some (z_object [(''etag'', z_string)])) =
     Inr [(''200'', \<lparr> description = ''Successful response'',
                      responseHeaders = Some (z_object [(''etag'', z_string)]),
                      responseContent = [(''application/json'',
                        \<lparr> mediaSchema = ZodSchema (optional z_void) \<rparr>)] \<rparr>),
          (''default'', errorResponseObject)]"
  proof -
    from getResponsesObject_entries[of "optional z_void" "Some (z_object [(''etag'', z_string)])"]
    obtain ok sch where
      r: "getResponsesObject (ZodType (optional z_void)) (Some (z_object [(''etag'', z_string)])) =
            Inr [(''200'', ok), (''default'', errorResponseObject)]"
      and f: "description ok = ''Successful response''"
        "responseHeaders ok = Some (z_object [(''etag'', z_string)])"
        "responseContent ok = [(''application/json'', \<lparr> mediaSchema = sch \<rparr>)]"
      and v: "\<not> instanceofZodTypeKind (optional z_void) ZodVoid \<and>
              \<not> instanceofZodTypeKind (optional z_void) ZodNever \<and>
              \<not> instanceofZodTypeKind (optional z_void) ZodUndefined \<longrightarrow> sch = ZodSchema (optional z_void)"
      by (elim exE conjE)
    have "\<not> instanceofZodTypeKind (optional z_void) ZodVoid \<and>
          \<not> instanceofZodTypeKind (optional z_void) ZodNever \<and>
          \<not> instanceofZodTypeKind (optional z_void) ZodUndefined"
      by (simp add: schema_defs)
    with v have "sch = ZodSchema (optional z_void)" by simp
    with f have "ok = \<lparr> description = ''Successful response'',
                      responseHeaders = Some (z_object [(''etag'', z_string)]),
                      responseContent = [(''application/json'',
                        \<lparr> mediaSchema = ZodSchema (optional z_void) \<rparr>)] \<rparr>"
      by (intro eq) simp_all
    with r show ?thesis by simp
  qed
  show ?thesis
    by (intro conjI) (rule 1 2 3)+
qed

section \<open>A void input (C5)\<close>

text \<open>
  Claim C5. When the input schema unwraps to a void-like node and no path parameter is
  declared, \<^verbatim>\<open>getParameterObjects\<close> and \<^verbatim>\<open>getRequestBodyObject\<close> both return absent.
\<close>

theorem void_input_absent:
  assumes "instanceofZodTypeLikeVoid (unwrapZodType s True)"
  shows "getParameterObjects c (ZodType s) [] h t = Inr None \<and>
         getRequestBodyObject omitOpenApi (ZodType s) [] cts = Inr None"
  using assms by (simp add: getParameterObjects_def getRequestBodyObject_def Let_def)

text \<open>
  A void node under a default and an optional wrapper.
\<close>

theorem void_input_absent_witness:
  "instanceofZodTypeLikeVoid (unwrapZodType (optional (withDefault z_void)) True) \<and>
   getParameterObjects True (ZodType (optional (withDefault z_void))) [] None InAll = Inr None \<and>
   getRequestBodyObject (\<lambda>m. None) (ZodType (optional (withDefault z_void))) []
     [''application/json''] = Inr None"
proof -
  have h: "instanceofZodTypeLikeVoid (unwrapZodType (optional (withDefault z_void)) True)"
    by (simp add: schema_defs)
  from void_input_absent[OF h, of True None InAll "\<lambda>m. None" "[''application/json'']"] h
  show ?thesis by (intro conjI) (elim conjE, assumption)+
qed

section \<open>Fields of an unsupported type (C6)\<close>

text \<open>
  Claim C6. Let the first five checks of \<^verbatim>\<open>getParameterObjects\<close> pass (the schema
  unwraps to an object that has every declared path-parameter name), and let \<open>k\<close> be a
  field in scope, after the fields \<open>ys\<close> in scope, whose node is neither string-like nor
  coercible. Then the call throws. When no field of \<open>ys\<close> is an optional-wrapped path
  parameter of a supported type, the error is the unsupported-field-type error of some
  field up to \<open>k\<close>: code \<^verbatim>\<open>INTERNAL_SERVER_ERROR\<close>, and the message ends in
  \<^verbatim>\<open>must be ZodString\<close> when \<^verbatim>\<open>zodSupportsCoerce\<close> is false and in
  \<^verbatim>\<open>must be ZodString, ZodNumber, ZodBoolean, ZodBigInt or ZodDate\<close> when it is true.
  When every field of \<open>ys\<close> is accepted, the error names \<open>k\<close> itself.
\<close>

theorem unsupported_field_type:
  assumes sel: "filter (inScope t pp) (map fst (shapeOf (unwrapZodType s True))) = ys @ k # zs"
    and f: "map_of (shapeOf (unwrapZodType s True)) k = Some f"
    and ns: "\<not> instanceofZodTypeLikeString f"
    and nc: "\<not> instanceofZodTypeCoercible c f"
    and sub: "set pp \<subseteq> fst ` set (shapeOf (unwrapZodType s True))"
  shows "(\<exists>e. getParameterObjects c (ZodType s) pp h t = Inl e) \<and>
         ((\<forall>y\<in>set ys. \<forall>g. map_of (shapeOf (unwrapZodType s True)) y = Some g \<longrightarrow>
              \<not> ((instanceofZodTypeLikeString g \<or> instanceofZodTypeCoercible c g) \<and>
                 instanceofZodTypeOptional g \<and> y \<in> set pp)) \<longrightarrow>
          (\<exists>k'\<in>set (ys @ [k]).
             getParameterObjects c (ZodType s) pp h t =
               Inl (TRPCError
                 (''Input parser key: '' @ quoted k' @
                    (if c then '' must be ZodString, ZodNumber, ZodBoolean, ZodBigInt or ZodDate''
                     else '' must be ZodString''))
                 ''INTERNAL_SERVER_ERROR''))) \<and>
         ((\<forall>y\<in>set ys. \<exists>g. map_of (shapeOf (unwrapZodType s True)) y = Some g \<and>
              (instanceofZodTypeLikeString g \<or> instanceofZodTypeCoercible c g) \<and>
              \<not> (instanceofZodTypeOptional g \<and> y \<in> set pp)) \<longrightarrow>
          getParameterObjects c (ZodType s) pp h t =
            Inl (TRPCError
              (''Input parser key: '' @ quoted k @
                 (if c then '' must be ZodString, ZodNumber, ZodBoolean, ZodBigInt or ZodDate''
                  else '' must be ZodString''))
              ''INTERNAL_SERVER_ERROR''))"
proof -
  let ?shape = "shapeOf (unwrapZodType s True)"
  let ?f = "toParameter c (\<not> isOptional s) ?shape pp"
  from sel have "?shape \<noteq> []" by auto
  then have obj: "instanceofZodTypeObject (unwrapZodType s True)"
    by (rule shapeOf_nonempty_object)
  note gp = getParameterObjects_object[OF obj sub, of c h t]
  have rej: "?f k = Inl (UnsupportedFieldType c k)"
    using f ns nc by (rule toParameter_unsupported)
  from shapeParameters_prefix[OF sel rej] obtain x e where
    x: "x \<in> set (ys @ [k])" and fx: "?f x = Inl e" and
    sp: "shapeParameters c (\<not> isOptional s) ?shape pp t = Inl e"
    by blast
  from gp sp have res: "getParameterObjects c (ZodType s) pp h t = Inl e"
    by simp
  then have 1: "\<exists>e. getParameterObjects c (ZodType s) pp h t = Inl e" ..
  have 2: "\<exists>k'\<in>set (ys @ [k]). getParameterObjects c (ZodType s) pp h t = Inl (UnsupportedFieldType c k')"
    if noopt: "\<forall>y\<in>set ys. \<forall>g. map_of ?shape y = Some g \<longrightarrow>
              \<not> ((instanceofZodTypeLikeString g \<or> instanceofZodTypeCoercible c g) \<and>
                 instanceofZodTypeOptional g \<and> y \<in> set pp)"
  proof -
    have "e = UnsupportedFieldType c x"
    proof (cases "x = k")
      case True
      with fx rej show ?thesis by simp
    next
      case False
      with x have xy: "x \<in> set ys" by simp
      have "x \<in> set (filter (inScope t pp) (map fst ?shape))"
        using xy by (simp only: sel) simp
      then have "x \<in> fst ` set ?shape" by simp
      then have "map_of ?shape x \<noteq> None"
        by (simp add: map_of_eq_None_iff)
      with toParameter_Inl[OF fx] noopt xy show ?thesis
        by blast
    qed
    with res x show ?thesis by blast
  qed
  have 3: "getParameterObjects c (ZodType s) pp h t = Inl (UnsupportedFieldType c k)"
    if "\<forall>y\<in>set ys. \<exists>g. map_of ?shape y = Some g \<and>
          (instanceofZodTypeLikeString g \<or> instanceofZodTypeCoercible c g) \<and>
          \<not> (instanceofZodTypeOptional g \<and> y \<in> set pp)"
    using gp shapeParameters_first_rejected[OF sel that rej] by simp
  from 1 2 3 show ?thesis
    unfolding UnsupportedFieldType_message by blast
qed

text \<open>
  An object field after an accepted string field, with coercion supported; and a number
  field, which is unsupported when coercion is not.
\<close>

theorem unsupported_field_type_witness:
  "filter (inScope InAll [''a''])
     (map fst (shapeOf (unwrapZodType (z_object [(''a'', z_string), (''b'', z_object [])]) True))) =
     [''a''] @ ''b'' # [] \<and>
   map_of (shapeOf (unwrapZodType (z_object [(''a'', z_string), (''b'', z_object [])]) True)) ''b'' =
     Some (z_object []) \<and>
   \<not> instanceofZodTypeLikeString (z_object []) \<and>
   \<not> instanceofZodTypeCoercible True (z_object []) \<and>
   getParameterObjects True (ZodType (z_object [(''a'', z_string), (''b'', z_object [])])) [''a''] None InAll =
     Inl (TRPCError
       (''Input parser key: '' @ quoted ''b'' @
          '' must be ZodString, ZodNumber, ZodBoolean, ZodBigInt or ZodDate'')
       ''INTERNAL_SERVER_ERROR'') \<and>
   \<not> instanceofZodTypeLikeString z_number \<and>
   \<not> instanceofZodTypeCoercible False z_number \<and>
   getParameterObjects False (ZodType (z_object [(''n'', z_number)])) [] None InQuery =
     Inl (TRPCError (''Input parser key: '' @ quoted ''n'' @ '' must be ZodString'')
       ''INTERNAL_SERVER_ERROR'')"
proof -
  let ?s = "z_object [(''a'', z_string), (''b'', z_object [])]"
  let ?shape = "shapeOf (unwrapZodType ?s True)"
  have sel: "filter (inScope InAll [''a'']) (map fst ?shape) = [''a''] @ ''b'' # []"
    by (simp add: schema_defs)
  have f: "map_of ?shape ''b'' = Some (z_object [])"
    by (simp add: schema_defs)
  have ns: "\<not> instanceofZodTypeLikeString (z_object [])"
    by (simp add: schema_defs)
  have nc: "\<not> instanceofZodTypeCoercible True (z_object [])"
    by (simp add: schema_defs)
  have sub: "set [''a''] \<subseteq> fst ` set ?shape"
    by (simp add: schema_defs)
  have acc: "\<forall>y\<in>set [''a'']. \<exists>g. map_of ?shape y = Some g \<and>
              (instanceofZodTypeLikeString g \<or> instanceofZodTypeCoercible True g) \<and>
              \<not> (instanceofZodTypeOptional g \<and> y \<in> set [''a''])"
    by (simp add: schema_defs)
  from unsupported_field_type[OF sel f ns nc sub, of None, THEN conjunct2, THEN conjunct2, THEN mp, OF acc]
  have 1: "getParameterObjects True (ZodType ?s) [''a''] None InAll =
     Inl (TRPCError
       (''Input parser key: '' @ quoted ''b'' @
          '' must be ZodString, ZodNumber, ZodBoolean, ZodBigInt or ZodDate'')
       ''INTERNAL_SERVER_ERROR'')"
    by simp
  let ?s2 = "z_object [(''n'', z_number)]"
  let ?shape2 = "shapeOf (unwrapZodType ?s2 True)"
  have sel2: "filter (inScope InQuery []) (map fst ?shape2) = [] @ ''n'' # []"
    by (simp add: schema_defs)
  have f2: "map_of ?shape2 ''n'' = Some z_number"
    by (simp add: schema_defs)
  have ns2: "\<not> instanceofZodTypeLikeString z_number"
    by (simp add: schema_defs)
  have nc2: "\<not> instanceofZodTypeCoercible False z_number"
    by (simp add: schema_defs)
  have sub2: "set [] \<subseteq> fst ` set ?shape2"
    by simp
  have acc2: "\<forall>y\<in>set []. \<exists>g. map_of ?shape2 y = Some g \<and>
              (instanceofZodTypeLikeString g \<or> instanceofZodTypeCoercible False g) \<and>
              \<not> (instanceofZodTypeOptional g \<and> y \<in> set [])"
    by simp
  from unsupported_field_type[OF sel2 f2 ns2 nc2 sub2, of None, THEN conjunct2, THEN conjunct2, THEN mp, OF acc2]
  have 2: "getParameterObjects False (ZodType ?s2) [] None InQuery =
     Inl (TRPCError (''Input parser key: '' @ quoted ''n'' @ '' must be ZodString'')
       ''INTERNAL_SERVER_ERROR'')"
    by simp
  show ?thesis
    by (intro conjI) (rule sel f ns nc 1 ns2 nc2 2)+
qed

text \<open>
  The fields are checked in the order of the shape and the first throw ends the call: a
  field of an unsupported type that follows an optional-wrapped path parameter is never
  reached, and the error is the one of the path parameter.
\<close>

theorem unsupported_field_type_counterexample:
  "inScope InAll [''a''] ''b'' \<and>
   map_of (shapeOf (unwrapZodType (z_object [(''a'', optional z_string), (''b'', z_object [])]) True)) ''b'' =
     Some (z_object []) \<and>
   \<not> instanceofZodTypeLikeString (z_object []) \<and>
   \<not> instanceofZodTypeCoercible True (z_object []) \<and>
   getParameterObjects True (ZodType (z_object [(''a'', optional z_string), (''b'', z_object [])]))
     [''a''] None InAll =
     Inl (TRPCError (''Path parameter: '' @ quoted ''a'' @ '' must not be optional'')
       ''INTERNAL_SERVER_ERROR'') \<and>
   TRPCError (''Path parameter: '' @ quoted ''a'' @ '' must not be optional'') ''INTERNAL_SERVER_ERROR'' \<noteq>
     UnsupportedFieldType True ''b'' \<and>
   TRPCError (''Path parameter: '' @ quoted ''a'' @ '' must not be optional'') ''INTERNAL_SERVER_ERROR'' \<noteq>
     UnsupportedFieldType True ''a''"
  by (simp add: schema_defs)

section \<open>Optional path parameters (C7)\<close>

text \<open>
  Claim C7. Let a declared path parameter \<open>k\<close> be a field of the unwrapped input object
  whose node is optional-wrapped, and let the scope be \<^verbatim>\<open>'all'\<close> or \<^verbatim>\<open>'path'\<close>. Then
  \<^verbatim>\<open>getParameterObjects\<close> throws. When every declared name is a field and every field
  in scope up to \<open>k\<close> is string-like or coercible, the error is the
  optional-path-parameter error of some field up to \<open>k\<close>, with code
  \<^verbatim>\<open>INTERNAL_SERVER_ERROR\<close>; when moreover every field in scope before \<open>k\<close> is accepted,
  it names \<open>k\<close> itself.
\<close>

theorem optional_path_parameter:
  assumes f: "map_of (shapeOf (unwrapZodType s True)) k = Some f"
    and opt: "instanceofZodTypeOptional f"
    and k: "k \<in> set pp"
    and t: "t \<noteq> InQuery"
  shows "(\<exists>e. getParameterObjects c (ZodType s) pp h t = Inl e) \<and>
         (set pp \<subseteq> fst ` set (shapeOf (unwrapZodType s True)) \<and>
          filter (inScope t pp) (map fst (shapeOf (unwrapZodType s True))) = ys @ k # zs \<and>
          (\<forall>y\<in>set (ys @ [k]). \<forall>g. map_of (shapeOf (unwrapZodType s True)) y = Some g \<longrightarrow>
              instanceofZodTypeLikeString g \<or> instanceofZodTypeCoercible c g) \<longrightarrow>
          (\<exists>k'\<in>set (ys @ [k]).
             getParameterObjects c (ZodType s) pp h t =
               Inl (TRPCError (''Path parameter: '' @ quoted k' @ '' must not be optional'')
                      ''INTERNAL_SERVER_ERROR''))) \<and>
         (set pp \<subseteq> fst ` set (shapeOf (unwrapZodType s True)) \<and>
          filter (inScope t pp) (map fst (shapeOf (unwrapZodType s True))) = ys @ k # zs \<and>
          (instanceofZodTypeLikeString f \<or> instanceofZodTypeCoercible c f) \<and>
          (\<forall>y\<in>set ys. \<exists>g. map_of (shapeOf (unwrapZodType s True)) y = Some g \<and>
              (instanceofZodTypeLikeString g \<or> instanceofZodTypeCoercible c g) \<and>
              \<not> (instanceofZodTypeOptional g \<and> y \<in> set pp)) \<longrightarrow>
          getParameterObjects c (ZodType s) pp h t =
            Inl (TRPCError (''Path parameter: '' @ quoted k @ '' must not be optional'')
                   ''INTERNAL_SERVER_ERROR''))"
proof -
  let ?shape = "shapeOf (unwrapZodType s True)"
  let ?f = "toParameter c (\<not> isOptional s) ?shape pp"
  from f have kin: "k \<in> fst ` set ?shape"
    by (metis domI dom_map_of_conv_image_fst)
  then have "?shape \<noteq> []" by auto
  then have obj: "instanceofZodTypeObject (unwrapZodType s True)"
    by (rule shapeOf_nonempty_object)
  have 1: "\<exists>e. getParameterObjects c (ZodType s) pp h t = Inl e"
  proof (cases "set pp \<subseteq> fst ` set ?shape")
    case False
    then show ?thesis by (rule getParameterObjects_unknown_path)
  next
    case True
    note gp = getParameterObjects_object[OF obj True, of c h t]
    from t k have "inScope t pp k" by (simp add: inScope_def)
    with kin have sel: "k \<in> set (filter (inScope t pp) (map fst ?shape))" by simp
    have "\<exists>e. ?f k = Inl e"
    proof (cases "instanceofZodTypeLikeString f \<or> instanceofZodTypeCoercible c f")
      case True
      from toParameter_optional_path[OF f True opt k] show ?thesis by blast
    next
      case False
      with toParameter_unsupported[OF f] show ?thesis by blast
    qed
    then obtain e where "?f k = Inl e" ..
    from shapeParameters_rejected[OF sel this] gp show ?thesis
      by auto
  qed
  have 2: "\<exists>k'\<in>set (ys @ [k]). getParameterObjects c (ZodType s) pp h t = Inl (OptionalPathParameter k')"
    if sub: "set pp \<subseteq> fst ` set ?shape"
      and sel: "filter (inScope t pp) (map fst ?shape) = ys @ k # zs"
      and ok: "\<forall>y\<in>set (ys @ [k]). \<forall>g. map_of ?shape y = Some g \<longrightarrow>
              instanceofZodTypeLikeString g \<or> instanceofZodTypeCoercible c g"
  proof -
    from ok f have "instanceofZodTypeLikeString f \<or> instanceofZodTypeCoercible c f"
      by simp
    from shapeParameters_prefix[OF sel toParameter_optional_path[OF f this opt k]]
    obtain x e where
      x: "x \<in> set (ys @ [k])" and fx: "?f x = Inl e" and
      sp: "shapeParameters c (\<not> isOptional s) ?shape pp t = Inl e"
      by blast
    have "x \<in> set (filter (inScope t pp) (map fst ?shape))"
      using x by (simp only: sel) auto
    then have "x \<in> fst ` set ?shape" by simp
    then have "map_of ?shape x \<noteq> None"
      by (simp add: map_of_eq_None_iff)
    with toParameter_Inl[OF fx] ok x have "e = OptionalPathParameter x"
      by blast
    with getParameterObjects_object[OF obj sub, of c h t] sp x show ?thesis
      by auto
  qed
  have 3: "getParameterObjects c (ZodType s) pp h t = Inl (OptionalPathParameter k)"
    if sub: "set pp \<subseteq> fst ` set ?shape"
      and sel: "filter (inScope t pp) (map fst ?shape) = ys @ k # zs"
      and ok: "instanceofZodTypeLikeString f \<or> instanceofZodTypeCoercible c f"
      and acc: "\<forall>y\<in>set ys. \<exists>g. map_of ?shape y = Some g \<and>
              (instanceofZodTypeLikeString g \<or> instanceofZodTypeCoercible c g) \<and>
              \<not> (instanceofZodTypeOptional g \<and> y \<in> set pp)"
    using getParameterObjects_object[OF obj sub, of c h t]
      shapeParameters_first_rejected[OF sel acc toParameter_optional_path[OF f ok opt k]]
    by simp
  from 1 2 3 show ?thesis
    unfolding OptionalPathParameter_message by blast
qed

text \<open>
  The scope \<^verbatim>\<open>'path'\<close> and an optional string as the only path parameter.
\<close>

theorem optional_path_parameter_witness:
  "map_of (shapeOf (unwrapZodType (z_object [(''id'', optional z_string), (''q'', z_string)]) True)) ''id'' =
     Some (optional z_string) \<and>
   instanceofZodTypeOptional (optional z_string) \<and>
   ''id'' \<in> set [''id''] \<and>
   InPath \<noteq> InQuery \<and>
   getParameterObjects True (ZodType (z_object [(''id'', optional z_string), (''q'', z_string)]))
     [''id''] None InPath =
     Inl (TRPCError (''Path parameter: '' @ quoted ''id'' @ '' must not be optional'')
       ''INTERNAL_SERVER_ERROR'')"
proof -
  let ?s = "z_object [(''id'', optional z_string), (''q'', z_string)]"
  let ?shape = "shapeOf (unwrapZodType ?s True)"
  have f: "map_of ?shape ''id'' = Some (optional z_string)"
    by (simp add: schema_defs)
  have opt: "instanceofZodTypeOptional (optional z_string)"
    by (simp add: schema_defs)
  have k: "''id'' \<in> set [''id'']" by simp
  have t: "InPath \<noteq> InQuery" by simp
  have sub: "set [''id''] \<subseteq> fst ` set ?shape"
    by (simp add: schema_defs)
  have ok: "instanceofZodTypeLikeString (optional z_string) \<or> instanceofZodTypeCoercible True (optional z_string)"
    by (simp add: schema_defs)
  have sel: "filter (inScope InPath [''id'']) (map fst ?shape) = [] @ ''id'' # []"
    by (simp add: schema_defs)
  have acc: "\<forall>y\<in>set []. \<exists>g. map_of ?shape y = Some g \<and>
              (instanceofZodTypeLikeString g \<or> instanceofZodTypeCoercible True g) \<and>
              \<not> (instanceofZodTypeOptional g \<and> y \<in> set [''id''])"
    by simp
  from optional_path_parameter[OF f opt k t, of True None "[]" "[]", THEN conjunct2, THEN conjunct2,
      THEN mp, OF conjI[OF sub conjI[OF sel conjI[OF ok acc]]]]
  have 1: "getParameterObjects True (ZodType ?s) [''id''] None InPath =
     Inl (TRPCError (''Path parameter: '' @ quoted ''id'' @ '' must not be optional'')
       ''INTERNAL_SERVER_ERROR'')" .
  show ?thesis
    by (intro conjI) (rule f opt k t 1)+
qed

text \<open>
  With the scope \<^verbatim>\<open>'query'\<close> the filter drops the path-parameter fields before any
  check, and the same schema gives a result.
\<close>

theorem optional_path_parameter_counterexample:
  "map_of (shapeOf (unwrapZodType (z_object [(''id'', optional z_string), (''q'', z_string)]) True)) ''id'' =
     Some (optional z_string) \<and>
   instanceofZodTypeOptional (optional z_string) \<and>
   ''id'' \<in> set [''id''] \<and>
   getParameterObjects True (ZodType (z_object [(''id'', optional z_string), (''q'', z_string)]))
     [''id''] None InQuery =
     Inr (Some \<lparr> header = None, path = z_object [], query = z_object [(''q'', z_string)] \<rparr>)"
  by (simp add: schema_defs)

section \<open>Parameters and body together (C8)\<close>




section \<open>The header schema (C9)\<close>

text \<open>
  Claim C9. The \<^verbatim>\<open>header\<close> of a result of \<^verbatim>\<open>getParameterObjects\<close> is the
  \<^verbatim>\<open>headersSchema\<close> argument itself; and for any two header arguments the two calls
  throw the same error, or both return absent, or return the same path and query objects.
\<close>

theorem header_passed_through:
  "(\<forall>r. getParameterObjects c x pp h t = Inr (Some r) \<longrightarrow> header r = h) \<and>
   map_sum id (map_option (\<lambda>r. (path r, query r))) (getParameterObjects c x pp h t) =
   map_sum id (map_option (\<lambda>r. (path r, query r))) (getParameterObjects c x pp h' t)"
proof -
  have eq: "getParameterObjects c x pp h t =
     (case getParameterObjects c x pp h' t of
        Inl e \<Rightarrow> Inl e
      | Inr None \<Rightarrow> Inr None
      | Inr (Some r) \<Rightarrow> Inr (Some (r\<lparr> header := h \<rparr>)))"
    by (rule getParameterObjects_header)
  show ?thesis
  proof (cases "getParameterObjects c x pp h' t")
    case (Inl e)
    with eq have "getParameterObjects c x pp h t = Inl e" by simp
    with Inl show ?thesis by simp
  next
    case (Inr res)
    show ?thesis
    proof (cases res)
      case None
      with eq Inr have "getParameterObjects c x pp h t = Inr None" by simp
      with Inr None show ?thesis by simp
    next
      case (Some r')
      with eq Inr have "getParameterObjects c x pp h t = Inr (Some (r'\<lparr> header := h \<rparr>))" by simp
      with Inr Some show ?thesis by simp
    qed
  qed
qed

text \<open>
  A header schema with an array field, which no path or query field could have.
\<close>

theorem header_passed_through_witness:
  "getParameterObjects True (ZodType (z_object [(''id'', z_string)])) [''id'']
     (Some (z_object [(''x-count'', z_array z_number)])) InAll =
     Inr (Some \<lparr> header = Some (z_object [(''x-count'', z_array z_number)]),
                 path = z_object [(''id'', z_string)], query = z_object [] \<rparr>) \<and>
   header \<lparr> header = Some (z_object [(''x-count'', z_array z_number)]),
            path = z_object [(''id'', z_string)], query = z_object [] \<rparr> =
     Some (z_object [(''x-count'', z_array z_number)]) \<and>
   map_sum id (map_option (\<lambda>r. (path r, query r)))
     (getParameterObjects True (ZodType (z_object [(''id'', z_string)])) [''id'']
        (Some (z_object [(''x-count'', z_array z_number)])) InAll) =
   map_sum id (map_option (\<lambda>r. (path r, query r)))
     (getParameterObjects True (ZodType (z_object [(''id'', z_string)])) [''id''] None InAll)"
proof -
  let ?x = "ZodType (z_object [(''id'', z_string)])"
  let ?h = "Some (z_object [(''x-count'', z_array z_number)])"
  let ?r = "\<lparr> header = ?h, path = z_object [(''id'', z_string)], query = z_object [] \<rparr>"
  have gp: "getParameterObjects True ?x [''id''] ?h InAll = Inr (Some ?r)"
    by (simp add: schema_defs)
  note th = header_passed_through[of True ?x "[''id'']" ?h InAll None]
  from th gp have 2: "header ?r = ?h"
    by (elim conjE allE impE) assumption
  from th have 3: "map_sum id (map_option (\<lambda>r. (path r, query r)))
       (getParameterObjects True ?x [''id''] ?h InAll) =
     map_sum id (map_option (\<lambda>r. (path r, query r)))
       (getParameterObjects True ?x [''id''] None InAll)"
    by (elim conjE)
  show ?thesis
    by (intro conjI) (rule gp 2 3)+
qed

section \<open>The errors of \<^verbatim>\<open>getRequestBodyObject\<close> (C10)\<close>

text \<open>
  Claim C10. \<^verbatim>\<open>getRequestBodyObject\<close> returns without an error for every schema that
  unwraps to an object node, whatever the path-parameter names and the fields are; and when
  it throws, the argument is not a validator node and the error is the one of line 156, or
  the schema does not unwrap to an object node and the error is the one of line 170.
\<close>

theorem getRequestBodyObject_errors:
  "(instanceofZodTypeObject (unwrapZodType s True) \<longrightarrow>
      (\<exists>b. getRequestBodyObject omitOpenApi (ZodType s) pp cts = Inr b)) \<and>
   (\<forall>e. getRequestBodyObject omitOpenApi x pp cts = Inl e \<longrightarrow>
      (x = NotZodType \<and> e = NotAValidator ''Input'') \<or>
      (\<exists>s'. x = ZodType s' \<and> \<not> instanceofZodTypeObject (unwrapZodType s' True) \<and> e = InputNotObject))"
proof (intro conjI impI allI)
  assume "instanceofZodTypeObject (unwrapZodType s True)"
  from object_node(1)[OF this]
  show "\<exists>b. getRequestBodyObject omitOpenApi (ZodType s) pp cts = Inr b"
    by (simp add: getRequestBodyObject_ZodObject)
next
  fix e assume e: "getRequestBodyObject omitOpenApi x pp cts = Inl e"
  show "(x = NotZodType \<and> e = NotAValidator ''Input'') \<or>
        (\<exists>s'. x = ZodType s' \<and> \<not> instanceofZodTypeObject (unwrapZodType s' True) \<and> e = InputNotObject)"
  proof (cases x)
    case NotZodType
    with e show ?thesis by (simp add: getRequestBodyObject_def)
  next
    case (ZodType s')
    show ?thesis
    proof (cases "instanceofZodTypeObject (unwrapZodType s' True)")
      case True
      from object_node(1)[OF this] e ZodType show ?thesis
        by (simp add: getRequestBodyObject_ZodObject split: if_splits)
    next
      case False
      with e ZodType show ?thesis
        by (simp add: getRequestBodyObject_def Let_def split: if_splits)
    qed
  qed
qed

text \<open>
  A path-parameter name that is no field and a field that is an optional object give a
  body; a string schema and a value that is no validator node give the two errors.
\<close>

theorem getRequestBodyObject_errors_witness:
  "instanceofZodTypeObject (unwrapZodType (z_object [(''a'', optional (z_object []))]) True) \<and>
   getRequestBodyObject (\<lambda>m. None) (ZodType (z_object [(''a'', optional (z_object []))])) [''zzz'']
     [''application/json''] =
     Inr (Some \<lparr> bodyRequired = True,
                 bodyContent = [(''application/json'',
                   \<lparr> mediaSchema = ZodSchema (z_object [(''a'', optional (z_object []))]) \<rparr>)] \<rparr>) \<and>
   getRequestBodyObject (\<lambda>m. None) (ZodType z_string) [''id''] [''application/json''] = Inl InputNotObject \<and>
   getRequestBodyObject (\<lambda>m. None) NotZodType [] [] = Inl (NotAValidator ''Input'')"
proof -
  let ?s = "z_object [(''a'', optional (z_object []))]"
  have h: "instanceofZodTypeObject (unwrapZodType ?s True)"
    by (simp add: schema_defs)
  have e1: "getRequestBodyObject (\<lambda>m. None) (ZodType ?s) [''zzz''] [''application/json''] =
     Inr (Some \<lparr> bodyRequired = True,
                 bodyContent = [(''application/json'',
                   \<lparr> mediaSchema = ZodSchema (z_object [(''a'', optional (z_object []))]) \<rparr>)] \<rparr>)"
    by (simp add: schema_defs)
  have e2: "getRequestBodyObject (\<lambda>m. None) (ZodType z_string) [''id''] [''application/json''] =
      Inl (TRPCError ''Input parser must be a ZodObject'' ''INTERNAL_SERVER_ERROR'')"
    by (simp add: schema_defs)
  have e3: "getRequestBodyObject (\<lambda>m. None) NotZodType [] [] =
      Inl (TRPCError ''Input parser expects a Zod validator'' ''INTERNAL_SERVER_ERROR'')"
    by (simp add: schema_defs)
  note th2 = getRequestBodyObject_errors[of ?s "\<lambda>m. None" "[''id'']" "[''application/json'']" "ZodType z_string"]
  from th2[THEN conjunct2, rule_format, OF e2]
  have "TRPCError ''Input parser must be a ZodObject'' ''INTERNAL_SERVER_ERROR'' = InputNotObject"
    by (elim disjE exE conjE) simp_all
  with e2 have 2: "getRequestBodyObject (\<lambda>m. None) (ZodType z_string) [''id''] [''application/json''] =
      Inl InputNotObject"
    by simp
  note th3 = getRequestBodyObject_errors[of ?s "\<lambda>m. None" "[]" "[]" NotZodType]
  from th3[THEN conjunct2, rule_format, OF e3]
  have "TRPCError ''Input parser expects a Zod validator'' ''INTERNAL_SERVER_ERROR'' = NotAValidator ''Input''"
    by (elim disjE exE conjE) simp_all
  with e3 have 3: "getRequestBodyObject (\<lambda>m. None) NotZodType [] [] = Inl (NotAValidator ''Input'')"
    by simp
  show ?thesis
    by (intro conjI) (rule h e1 2 3)+
qed

end
